theory Spec2Isabelle
  imports Complex_Main "HOL-Library.AList" "HOL-Library.Word"
begin

section \<open>JavaScript values\<close>

text \<open>
  The services pass \<^verbatim>\<open>Record<string, any>\<close> objects around, so the model works on
  untyped JavaScript values. A \<^verbatim>\<open>number\<close> is an IEEE double: every finite double is a
  rational, and the only operations the code applies to numbers are comparisons with
  the literals 1 and 1000, which are exact.
\<close>

datatype jsnum = Fin rat | PosInfinity | NegInfinity | NaN

fun js_lt :: "jsnum \<Rightarrow> jsnum \<Rightarrow> bool" where
  "js_lt NaN _ = False"
| "js_lt _ NaN = False"
| "js_lt (Fin a) (Fin b) = (a < b)"
| "js_lt (Fin _) PosInfinity = True"
| "js_lt (Fin _) NegInfinity = False"
| "js_lt PosInfinity _ = False"
| "js_lt NegInfinity (Fin _) = True"
| "js_lt NegInfinity PosInfinity = True"
| "js_lt NegInfinity NegInfinity = False"

definition js_gt :: "jsnum \<Rightarrow> jsnum \<Rightarrow> bool" where
  "js_gt a b = js_lt b a"

text \<open>
  An object is the list of its own properties, each key once, in the order in which the
  engine enumerates them; \<open>JUndefined\<close> is both the value \<^verbatim>\<open>undefined\<close> and what
  reading a missing property gives.
\<close>

datatype json =
    JUndefined
  | JNull
  | JBool bool
  | JNum jsnum
  | JStr string
  | JArr "json list"
  | JObj "(string \<times> json) list"

text \<open>The truthiness test of \<^verbatim>\<open>if (x)\<close>, \<^verbatim>\<open>!x\<close>, \<^verbatim>\<open>x && y\<close> and \<^verbatim>\<open>x || y\<close>.\<close>

fun truthy :: "json \<Rightarrow> bool" where
  "truthy JUndefined = False"
| "truthy JNull = False"
| "truthy (JBool b) = b"
| "truthy (JNum (Fin r)) = (r \<noteq> 0)"
| "truthy (JNum NaN) = False"
| "truthy (JNum _) = True"
| "truthy (JStr s) = (s \<noteq> [])"
| "truthy (JArr _) = True"
| "truthy (JObj _) = True"

text \<open>
  \<open>get_prop x k\<close> is \<^verbatim>\<open>x?.k\<close>. The code reads only the property names
  \<^verbatim>\<open>targetConfiguration\<close>, \<^verbatim>\<open>mcp\<close>, \<^verbatim>\<open>openApiSchema\<close>, \<^verbatim>\<open>s3\<close>, \<^verbatim>\<open>uri\<close>,
  \<^verbatim>\<open>credentialProviderConfigurations\<close>, \<^verbatim>\<open>credentialProviderArn\<close>, \<^verbatim>\<open>Account\<close>,
  \<^verbatim>\<open>openapi\<close>, \<^verbatim>\<open>swagger\<close>, \<^verbatim>\<open>data\<close>, the properties of \<^verbatim>\<open>api_info\<close>
  (\<^verbatim>\<open>method\<close>, \<^verbatim>\<open>url\<close>, \<^verbatim>\<open>query_params\<close>, \<^verbatim>\<open>headers\<close>, \<^verbatim>\<open>body_schema\<close>,
  \<^verbatim>\<open>description\<close>) and those of a created target that go into the response, none of
  which is inherited from a prototype, so on an array or a primitive the read gives
  \<^verbatim>\<open>undefined\<close>. Plain \<^verbatim>\<open>x.k\<close> differs from \<^verbatim>\<open>x?.k\<close> only when \<open>x\<close> is
  \<^verbatim>\<open>null\<close> or \<^verbatim>\<open>undefined\<close>, where it throws.
\<close>

fun get_prop :: "json \<Rightarrow> string \<Rightarrow> json" where
  "get_prop (JObj kvs) k = (case map_of kvs k of Some v \<Rightarrow> v | None \<Rightarrow> JUndefined)"
| "get_prop _ k = JUndefined"

section \<open>Exceptions\<close>

text \<open>
  What a rejected remote call carries: \<^verbatim>\<open>error.name\<close>, \<^verbatim>\<open>error.Code\<close>,
  \<^verbatim>\<open>error.message\<close> and \<^verbatim>\<open>error.$metadata?.httpStatusCode\<close>.
\<close>

datatype ext_error =
  ExtError (err_name: string) (err_Code: "string option") (err_message: string)
    (err_httpStatusCode: "nat option")

datatype exn =
    Error string
  | TypeError string
  | BadRequestException string
  | Rejected ext_error

fun message :: "exn \<Rightarrow> string" where
  "message (Error m) = m"
| "message (TypeError m) = m"
| "message (BadRequestException m) = m"
| "message (Rejected e) = err_message e"

subsection \<open>The text of a \<^verbatim>\<open>TypeError\<close>\<close>

definition quoted :: "string \<Rightarrow> string" where
  "quoted s = CHR 0x27 # s @ [CHR 0x27]"

text \<open>Decimal digits of an integer, as a template literal prints it.\<close>

fun show_nat :: "nat \<Rightarrow> string" where
  "show_nat n =
     (if n < 10 then [''0123456789'' ! n]
      else show_nat (n div 10) @ [''0123456789'' ! (n mod 10)])"

declare show_nat.simps [simp del]

definition show_int :: "int \<Rightarrow> string" where
  "show_int i = (if i < 0 then CHR ''-'' # show_nat (nat (- i)) else show_nat (nat i))"

text \<open>
  The text of a number. The model prints the integers and the decimal fractions of at
  most twenty places; the engine prints the same for a number from 0.000001 up to ten to
  the power 21 in magnitude that has at most fifteen significant digits, and an exponent
  or a rounded decimal for the other numbers.
\<close>

fun frac_digits :: "nat \<Rightarrow> rat \<Rightarrow> string" where
  "frac_digits 0 f = []"
| "frac_digits (Suc k) f =
     (if f = 0 then []
      else (''0123456789'' ! nat \<lfloor>f * 10\<rfloor>)
             # frac_digits k (f * 10 - of_int \<lfloor>f * 10\<rfloor>))"

definition show_rat :: "rat \<Rightarrow> string" where
  "show_rat r =
     (let a = \<bar>r\<bar>; f = a - of_int \<lfloor>a\<rfloor>
      in (if r < 0 then ''-'' else []) @ show_nat (nat \<lfloor>a\<rfloor>)
           @ (if f = 0 then [] else CHR ''.'' # frac_digits 20 f))"

fun number_text :: "jsnum \<Rightarrow> string" where
  "number_text (Fin r) = show_rat r"
| "number_text PosInfinity = ''Infinity''"
| "number_text NegInfinity = ''-Infinity''"
| "number_text NaN = ''NaN''"

text \<open>Reading the property \<open>k\<close> of \<^verbatim>\<open>undefined\<close> or \<^verbatim>\<open>null\<close>.\<close>

definition cannot_read :: "json \<Rightarrow> string \<Rightarrow> string" where
  "cannot_read x k =
     ''Cannot read properties of '' @ (if x = JNull then ''null'' else ''undefined'')
       @ '' (reading '' @ quoted k @ '')''"

text \<open>Calling the method \<open>k\<close> of the value \<open>x\<close> of the variable \<open>v\<close>, which has no such method.\<close>

definition cannot_call :: "string \<Rightarrow> json \<Rightarrow> string \<Rightarrow> string" where
  "cannot_call v x k =
     (if x = JUndefined \<or> x = JNull then cannot_read x k
      else v @ ''.'' @ k @ '' is not a function'')"

text \<open>
  \<open>put_prop x k v\<close> is the assignment \<^verbatim>\<open>x.k = v\<close> and returns \<open>x\<close> after it. The
  services are class bodies, hence strict code: assigning to a property of a primitive
  throws. An array accepts the assignment, but a named property of an array is not part
  of the array's elements, which is all the model keeps of it.
\<close>

fun put_prop :: "json \<Rightarrow> string \<Rightarrow> json \<Rightarrow> exn + json" where
  "put_prop (JObj kvs) k v = Inr (JObj (AList.update k v kvs))"
| "put_prop (JArr xs) k v = Inr (JArr xs)"
| "put_prop JUndefined k v =
     Inl (TypeError (''Cannot set properties of undefined (setting '' @ quoted k @ '')''))"
| "put_prop JNull k v =
     Inl (TypeError (''Cannot set properties of null (setting '' @ quoted k @ '')''))"
| "put_prop (JStr s) k v =
     Inl (TypeError (''Cannot create property '' @ quoted k @ '' on string '' @ quoted s))"
| "put_prop (JBool b) k v =
     Inl (TypeError (''Cannot create property '' @ quoted k @ '' on boolean ''
                       @ quoted (if b then ''true'' else ''false'')))"
| "put_prop (JNum n) k v =
     Inl (TypeError (''Cannot create property '' @ quoted k @ '' on number ''
                       @ quoted (number_text n)))"

text \<open>
  After a nested object has been mutated in place, its parent holds the mutated child
  under the same key and at the same position.
\<close>

fun with_child :: "json \<Rightarrow> string \<Rightarrow> json \<Rightarrow> json" where
  "with_child (JObj kvs) k child = JObj (AList.update k child kvs)"
| "with_child x k child = x"

section \<open>The remote services\<close>

record target_input =
  gatewayIdentifier :: string
  name :: string
  targetConfiguration :: json
  credentialProviderConfigurations :: json
  description :: json

record update_input = target_input +
  targetId :: string

text \<open>
  The commands the code sends, with the fields of their inputs. An input property that
  the code leaves unset is \<open>JUndefined\<close> or \<open>None\<close>.
\<close>

datatype command =
    GetGatewayTargetCommand string string
  | ListGatewayTargetsCommand string "jsnum option" "string option"
  | ListGatewaysCommand "jsnum option" "string option"
  | CreateGatewayTargetCommand target_input
  | UpdateGatewayTargetCommand update_input
  | CreateApiKeyCredentialProviderCommand "string option" "string option"
  | GetCallerIdentityCommand
  | HeadBucketCommand string
  | CreateBucketCommand string "string option"
  | PutObjectCommand string string json string
  | AxiosGet string

text \<open>
  The outside world answers every command with the properties of a response object or
  rejects it. A function of the services returns its result together with the commands
  it sent, in order.
\<close>

type_synonym client = "command \<Rightarrow> ext_error + (string \<times> json) list"

type_synonym 'a io = "(exn + 'a) \<times> command list"

definition bind_io :: "'a io \<Rightarrow> ('a \<Rightarrow> 'b io) \<Rightarrow> 'b io" where
  "bind_io m f =
     (case m of
        (Inl e, sent) \<Rightarrow> (Inl e, sent)
      | (Inr a, sent) \<Rightarrow> (case f a of (r, sent') \<Rightarrow> (r, sent @ sent')))"

text \<open>\<^verbatim>\<open>await client.send(command)\<close> where a rejection is not caught.\<close>

definition send :: "client \<Rightarrow> command \<Rightarrow> json io" where
  "send c cmd = (case c cmd of Inr response \<Rightarrow> (Inr (JObj response), [cmd])
                             | Inl error \<Rightarrow> (Inl (Rejected error), [cmd]))"

section \<open>ToolsService\<close>

definition not_found_message :: "string \<Rightarrow> string \<Rightarrow> string" where
  "not_found_message targetId' gatewayId =
     ''Target '' @ [CHR 0x27] @ targetId' @ [CHR 0x27] @ '' not found on gateway ''
       @ [CHR 0x27] @ gatewayId @ [CHR 0x27]"

definition getGatewayTarget :: "client \<Rightarrow> string \<Rightarrow> string \<Rightarrow> json io" where
  "getGatewayTarget c gatewayId targetId' =
     (case c (GetGatewayTargetCommand gatewayId targetId') of
        Inr response \<Rightarrow> (Inr (JObj response), [GetGatewayTargetCommand gatewayId targetId'])
      | Inl error \<Rightarrow>
          (if err_name error = ''ResourceNotFoundException''
           then Inl (Error (not_found_message targetId' gatewayId))
           else Inl (Rejected error),
           [GetGatewayTargetCommand gatewayId targetId']))"

text \<open>
  \<^verbatim>\<open>listGatewayTargets\<close>: the range check on \<^verbatim>\<open>maxResults\<close> comes before the request
  is built; \<^verbatim>\<open>nextToken\<close> is set only when it is truthy.
\<close>

definition max_results_message :: string where
  "max_results_message = ''maxResults must be between 1 and 1000''"

definition truthy_token :: "string option \<Rightarrow> string option" where
  "truthy_token nextToken =
     (case nextToken of None \<Rightarrow> None | Some s \<Rightarrow> if s = [] then None else Some s)"

definition listGatewayTargets ::
  "client \<Rightarrow> string \<Rightarrow> jsnum option \<Rightarrow> string option \<Rightarrow> json io" where
  "listGatewayTargets c gatewayId maxResults nextToken =
     (case maxResults of
        None \<Rightarrow> send c (ListGatewayTargetsCommand gatewayId None (truthy_token nextToken))
      | Some m \<Rightarrow>
          if js_lt m (Fin 1) \<or> js_gt m (Fin 1000)
          then (Inl (Error max_results_message), [])
          else send c (ListGatewayTargetsCommand gatewayId (Some m) (truthy_token nextToken)))"

text \<open>\<^verbatim>\<open>GatewayService.listGateways\<close> has the same shape, without the gateway.\<close>

definition listGateways :: "client \<Rightarrow> jsnum option \<Rightarrow> string option \<Rightarrow> json io" where
  "listGateways c maxResults nextToken =
     (case maxResults of
        None \<Rightarrow> send c (ListGatewaysCommand None (truthy_token nextToken))
      | Some m \<Rightarrow>
          if js_lt m (Fin 1) \<or> js_gt m (Fin 1000)
          then (Inl (Error max_results_message), [])
          else send c (ListGatewaysCommand (Some m) (truthy_token nextToken)))"

subsection \<open>updateGatewayTarget\<close>

text \<open>\<^verbatim>\<open>x?.mcp?.openApiSchema?.s3\<close> and \<^verbatim>\<open>x?.mcp?.openApiSchema?.s3?.uri\<close>.\<close>

definition s3_of :: "json \<Rightarrow> json" where
  "s3_of cfg = get_prop (get_prop (get_prop cfg ''mcp'') ''openApiSchema'') ''s3''"

definition s3_uri :: "json \<Rightarrow> json" where
  "s3_uri cfg = get_prop (s3_of cfg) ''uri''"

text \<open>
  \<^verbatim>\<open>finalTargetConfiguration.mcp.openApiSchema.s3.uri = existingS3Uri\<close>: the innermost
  object is mutated in place, the objects on the path to it stay where they are.
\<close>

definition assign_s3_uri :: "json \<Rightarrow> json \<Rightarrow> exn + json" where
  "assign_s3_uri cfg v =
     (let mcp = get_prop cfg ''mcp'';
          openApiSchema = get_prop mcp ''openApiSchema'';
          s3 = get_prop openApiSchema ''s3''
      in case put_prop s3 ''uri'' v of
           Inl e \<Rightarrow> Inl e
         | Inr s3' \<Rightarrow>
             Inr (with_child cfg ''mcp''
                    (with_child mcp ''openApiSchema''
                       (with_child openApiSchema ''s3'' s3'))))"

text \<open>
  Lines 198 to 211: when no configuration is given, the existing one is used, and
  without an existing target the update is refused.
\<close>

definition required_message :: string where
  "required_message =
     ''target_configuration is required when updating tool if existing target cannot be retrieved''"

definition chooseTargetConfiguration :: "json \<Rightarrow> json \<Rightarrow> exn + json" where
  "chooseTargetConfiguration existingTarget targetConfiguration' =
     (if \<not> truthy targetConfiguration'
      then (if truthy existingTarget
            then Inr (get_prop existingTarget ''targetConfiguration'')
            else Inl (Error required_message))
      else Inr targetConfiguration')"

text \<open>Lines 221 to 238: an empty S3 URI in the configuration is replaced by the existing one.\<close>

definition preserveS3Uri :: "json \<Rightarrow> json \<Rightarrow> exn + json" where
  "preserveS3Uri existingTarget finalTargetConfiguration =
     (if truthy existingTarget \<and> truthy finalTargetConfiguration
      then (let existingS3Uri = s3_uri (get_prop existingTarget ''targetConfiguration'');
                newS3Uri = s3_uri finalTargetConfiguration
            in if \<not> truthy newS3Uri \<and> truthy existingS3Uri
               then (if truthy (s3_of finalTargetConfiguration)
                     then assign_s3_uri finalTargetConfiguration existingS3Uri
                     else Inr finalTargetConfiguration)
               else Inr finalTargetConfiguration)
      else Inr finalTargetConfiguration)"

text \<open>Lines 240 to 253: the credential configurations of the request.\<close>

definition chooseCredentials :: "json \<Rightarrow> json \<Rightarrow> json" where
  "chooseCredentials existingTarget credentialProviderConfigurations' =
     (if credentialProviderConfigurations' \<noteq> JUndefined
      then credentialProviderConfigurations'
      else if truthy existingTarget
      then (let existingCreds = get_prop existingTarget ''credentialProviderConfigurations''
            in if truthy existingCreds then existingCreds else JUndefined)
      else JUndefined)"

text \<open>
  Lines 198 to 258: the input of the update command. The description is set only when
  the caller gave one.
\<close>

definition buildUpdateParams ::
  "json \<Rightarrow> string \<Rightarrow> string \<Rightarrow> string \<Rightarrow> json \<Rightarrow> json \<Rightarrow> json \<Rightarrow> exn + update_input" where
  "buildUpdateParams existingTarget gatewayId targetId' targetName targetConfiguration'
       description' credentialProviderConfigurations' =
     (case chooseTargetConfiguration existingTarget targetConfiguration' of
        Inl e \<Rightarrow> Inl e
      | Inr finalTargetConfiguration \<Rightarrow>
          (case preserveS3Uri existingTarget finalTargetConfiguration of
             Inl e \<Rightarrow> Inl e
           | Inr cfg \<Rightarrow>
               Inr \<lparr> gatewayIdentifier = gatewayId,
                     name = targetName,
                     targetConfiguration = cfg,
                     credentialProviderConfigurations =
                       chooseCredentials existingTarget credentialProviderConfigurations',
                     description = (if description' \<noteq> JUndefined then description' else JUndefined),
                     targetId = targetId' \<rparr>))"

text \<open>
  The whole function: the read (any failure of it is logged and leaves
  \<^verbatim>\<open>existingTarget\<close> at \<^verbatim>\<open>null\<close>), the merge, the write.
\<close>

definition updateGatewayTarget ::
  "client \<Rightarrow> string \<Rightarrow> string \<Rightarrow> string \<Rightarrow> json \<Rightarrow> json \<Rightarrow> json \<Rightarrow> json io" where
  "updateGatewayTarget c gatewayId targetId' targetName targetConfiguration' description'
       credentialProviderConfigurations' =
     (case getGatewayTarget c gatewayId targetId' of
        (fetched, sent) \<Rightarrow>
          (let existingTarget = (case fetched of Inr response \<Rightarrow> response | Inl e \<Rightarrow> JNull)
           in case buildUpdateParams existingTarget gatewayId targetId' targetName
                     targetConfiguration' description' credentialProviderConfigurations' of
                Inl e \<Rightarrow> (Inl e, sent)
              | Inr updateParams \<Rightarrow>
                  (case c (UpdateGatewayTargetCommand updateParams) of
                     Inr response \<Rightarrow>
                       (Inr (JObj response), sent @ [UpdateGatewayTargetCommand updateParams])
                   | Inl error \<Rightarrow>
                       (if err_name error = ''ResourceNotFoundException''
                        then Inl (Error (not_found_message targetId' gatewayId))
                        else Inl (Rejected error),
                        sent @ [UpdateGatewayTargetCommand updateParams]))))"

subsection \<open>createGatewayTarget\<close>

definition already_exists_message :: "string \<Rightarrow> string \<Rightarrow> string" where
  "already_exists_message targetName gatewayId =
     ''Target '' @ [CHR 0x27] @ targetName @ [CHR 0x27] @ '' already exists on gateway ''
       @ gatewayId"

text \<open>\<^verbatim>\<open>x || d\<close> on an optional string: the default replaces a missing or empty one.\<close>

definition or_default :: "string option \<Rightarrow> string \<Rightarrow> string" where
  "or_default x d = (case x of None \<Rightarrow> d | Some s \<Rightarrow> if s = [] then d else s)"

text \<open>A default parameter value replaces a missing argument only.\<close>

definition param_default :: "string option \<Rightarrow> string \<Rightarrow> string" where
  "param_default x d = (case x of None \<Rightarrow> d | Some s \<Rightarrow> s)"

definition targetConfig :: "string \<Rightarrow> json" where
  "targetConfig openApiS3Uri =
     JObj [(''mcp'', JObj [(''openApiSchema'', JObj [(''s3'', JObj [(''uri'', JStr openApiS3Uri)])])])]"

definition credentialConfigs :: "string \<Rightarrow> json \<Rightarrow> string \<Rightarrow> json" where
  "credentialConfigs apiKeyParamName apiKeyCredentialProviderArn apiKeyLocation =
     JArr [JObj [(''credentialProviderType'', JStr ''API_KEY''),
                 (''credentialProvider'',
                  JObj [(''apiKeyCredentialProvider'',
                         JObj [(''credentialParameterName'', JStr apiKeyParamName),
                               (''providerArn'', apiKeyCredentialProviderArn),
                               (''credentialLocation'', JStr apiKeyLocation)])])]]"

text \<open>\<^verbatim>\<open>x || d\<close>.\<close>

definition truthy_or :: "json \<Rightarrow> json \<Rightarrow> json" where
  "truthy_or x d = (if truthy x then x else d)"

definition createTargetInput ::
  "string \<Rightarrow> string \<Rightarrow> string \<Rightarrow> json \<Rightarrow> string option \<Rightarrow> string option \<Rightarrow> json
     \<Rightarrow> target_input" where
  "createTargetInput gatewayId targetName openApiS3Uri apiKeyCredentialProviderArn
       apiKeyParamName apiKeyLocation description' =
     \<lparr> gatewayIdentifier = gatewayId,
       name = targetName,
       targetConfiguration = targetConfig openApiS3Uri,
       credentialProviderConfigurations =
         credentialConfigs (param_default apiKeyParamName ''api_key'')
           apiKeyCredentialProviderArn (param_default apiKeyLocation ''QUERY_PARAMETER''),
       description = truthy_or description' (JStr (''OpenAPI target: '' @ targetName)) \<rparr>"

definition createGatewayTarget ::
  "client \<Rightarrow> string \<Rightarrow> string \<Rightarrow> string \<Rightarrow> json \<Rightarrow> string option \<Rightarrow> string option
     \<Rightarrow> json \<Rightarrow> json io" where
  "createGatewayTarget c gatewayId targetName openApiS3Uri apiKeyCredentialProviderArn
       apiKeyParamName apiKeyLocation description' =
     (let command = CreateGatewayTargetCommand
                      (createTargetInput gatewayId targetName openApiS3Uri
                         apiKeyCredentialProviderArn apiKeyParamName apiKeyLocation description')
      in case c command of
           Inr response \<Rightarrow> (Inr (JObj response), [command])
         | Inl error \<Rightarrow>
             (if err_Code error = Some ''ConflictException''
              then Inl (Error (already_exists_message targetName gatewayId))
              else Inl (Rejected error),
              [command]))"

section \<open>CredentialsService\<close>

fun starts_with :: "string \<Rightarrow> string \<Rightarrow> bool" where
  "starts_with s [] = True"
| "starts_with [] (x # xs) = False"
| "starts_with (y # ys) (x # xs) = (y = x \<and> starts_with ys xs)"

text \<open>\<^verbatim>\<open>s.includes(sub)\<close>.\<close>

fun js_includes :: "string \<Rightarrow> string \<Rightarrow> bool" where
  "js_includes [] sub = (sub = [])"
| "js_includes (y # ys) sub = (starts_with (y # ys) sub \<or> js_includes ys sub)"

text \<open>A string or \<^verbatim>\<open>undefined\<close> inside a template literal.\<close>

definition template :: "string option \<Rightarrow> string" where
  "template x = (case x of None \<Rightarrow> ''undefined'' | Some s \<Rightarrow> s)"

definition provider_exists_message :: "string option \<Rightarrow> string" where
  "provider_exists_message providerName =
     ''Credential provider '' @ [CHR 0x27] @ template providerName @ [CHR 0x27]
       @ '' already exists. ''
       @ ''Please use a unique name or handle provider updates manually.''"

definition createOrGetApiKeyCredentialProvider ::
  "client \<Rightarrow> string option \<Rightarrow> string option \<Rightarrow> json io" where
  "createOrGetApiKeyCredentialProvider c providerName apiKey =
     (let command = CreateApiKeyCredentialProviderCommand providerName apiKey
      in case c command of
           Inr response \<Rightarrow>
             (let arn = get_prop (JObj response) ''credentialProviderArn''
              in (Inr (if truthy arn then arn else JStr []), [command]))
         | Inl error \<Rightarrow>
             (if js_includes (err_message error) ''already exists''
                 \<or> err_Code error = Some ''EntityAlreadyExists''
              then Inl (Error (provider_exists_message providerName))
              else Inl (Rejected error),
              [command]))"

section \<open>S3Service\<close>

text \<open>
  What the process takes from its surroundings: two environment variables, the clock
  (\<^verbatim>\<open>Date.now()\<close>, in milliseconds), the eight bytes of \<^verbatim>\<open>randomBytes(8)\<close>, and the
  URL parser of the platform (\<^verbatim>\<open>new URL(url).pathname\<close>, with \<open>None\<close> where the
  constructor throws).
\<close>

record environment =
  AWS_DEFAULT_REGION :: "string option"
  OPENAPI_SPECS_BUCKET_var :: "string option"
  now :: int
  randomBytes8 :: "8 word list"
  url_pathname :: "string \<Rightarrow> string option"

definition awsRegion :: "environment \<Rightarrow> string" where
  "awsRegion env = or_default (AWS_DEFAULT_REGION env) ''us-east-1''"

definition OPENAPI_SPECS_BUCKET :: "environment \<Rightarrow> string" where
  "OPENAPI_SPECS_BUCKET env =
     or_default (OPENAPI_SPECS_BUCKET_var env) ''agentcore-gateway-openapi-specs-bucket''"

text \<open>\<^verbatim>\<open>buffer.toString('hex')\<close>: two lower-case hexadecimal digits for each byte.\<close>

definition hex_byte :: "8 word \<Rightarrow> string" where
  "hex_byte b = [''0123456789abcdef'' ! (unat b div 16), ''0123456789abcdef'' ! (unat b mod 16)]"

definition to_hex :: "8 word list \<Rightarrow> string" where
  "to_hex bs = concat (map hex_byte bs)"

text \<open>
  The account of the caller identity is a string or missing in the response type of the
  client; a missing one prints as \<^verbatim>\<open>undefined\<close>.
\<close>

definition account_of :: "json \<Rightarrow> string option" where
  "account_of identity = (case get_prop identity ''Account'' of JStr a \<Rightarrow> Some a | _ \<Rightarrow> None)"

definition default_bucket :: "environment \<Rightarrow> json \<Rightarrow> string" where
  "default_bucket env identity =
     ''agentcore-gateways-targets-openapi-specs-'' @ template (account_of identity)
       @ ''-'' @ awsRegion env"

definition createBucketParams :: "environment \<Rightarrow> string \<Rightarrow> command" where
  "createBucketParams env bucketName =
     CreateBucketCommand bucketName
       (if awsRegion env \<noteq> ''us-east-1'' then Some (awsRegion env) else None)"

text \<open>Lines 20 to 24: the name of the bucket, or the default one of the account.\<close>

definition bucketNameOrDefault :: "client \<Rightarrow> environment \<Rightarrow> string option \<Rightarrow> string io" where
  "bucketNameOrDefault c env bucketName =
     (case bucketName of
        Some b \<Rightarrow>
          if b \<noteq> [] then (Inr b, [])
          else bind_io (send c GetCallerIdentityCommand)
                 (\<lambda>identity. (Inr (default_bucket env identity), []))
      | None \<Rightarrow>
          bind_io (send c GetCallerIdentityCommand)
            (\<lambda>identity. (Inr (default_bucket env identity), [])))"

text \<open>Lines 28 to 61: the bucket is checked, and created when the check says it is missing.\<close>

definition headOrCreateBucket :: "client \<Rightarrow> environment \<Rightarrow> string \<Rightarrow> string io" where
  "headOrCreateBucket c env bucketName =
     (case c (HeadBucketCommand bucketName) of
        Inr response \<Rightarrow> (Inr bucketName, [HeadBucketCommand bucketName])
      | Inl error \<Rightarrow>
          if err_Code error = Some ''NoSuchBucket'' \<or> err_httpStatusCode error = Some 404
          then (case c (createBucketParams env bucketName) of
                  Inr response \<Rightarrow>
                    (Inr bucketName,
                     [HeadBucketCommand bucketName, createBucketParams env bucketName])
                | Inl createError \<Rightarrow>
                    (if err_Code createError = Some ''BucketAlreadyOwnedByYou''
                        \<or> err_Code createError = Some ''BucketAlreadyExists''
                     then Inr bucketName
                     else Inl (Rejected createError),
                     [HeadBucketCommand bucketName, createBucketParams env bucketName]))
          else (Inl (Rejected error), [HeadBucketCommand bucketName]))"

definition ensureS3Bucket :: "client \<Rightarrow> environment \<Rightarrow> string option \<Rightarrow> string io" where
  "ensureS3Bucket c env bucketName =
     bind_io (bucketNameOrDefault c env bucketName) (headOrCreateBucket c env)"

definition objectKey :: "environment \<Rightarrow> string \<Rightarrow> string \<Rightarrow> string" where
  "objectKey env gatewayId toolName =
     ''gateways/'' @ gatewayId @ ''/tools/'' @ toolName @ ''/'' @ show_int (now env div 1000)
       @ ''-'' @ to_hex (randomBytes8 env) @ ''.json''"

text \<open>
  The body of the stored object is \<^verbatim>\<open>JSON.stringify(specJson)\<close>; the model keeps the
  value that is serialised.
\<close>

definition uploadOpenApiSpec ::
  "client \<Rightarrow> environment \<Rightarrow> json \<Rightarrow> string \<Rightarrow> string \<Rightarrow> string option \<Rightarrow> string io" where
  "uploadOpenApiSpec c env specJson toolName gatewayId bucketName =
     bind_io (ensureS3Bucket c env bucketName)
       (\<lambda>finalBucketName.
          bind_io
            (send c (PutObjectCommand finalBucketName (objectKey env gatewayId toolName)
                       specJson ''application/json''))
            (\<lambda>response.
               (Inr (''s3://'' @ finalBucketName @ ''/'' @ objectKey env gatewayId toolName),
                [])))"

section \<open>OpenApiGeneratorService\<close>

text \<open>\<^verbatim>\<open>x && typeof x === 'object'\<close>.\<close>

fun is_object :: "json \<Rightarrow> bool" where
  "is_object (JObj kvs) = True"
| "is_object (JArr xs) = True"
| "is_object x = False"

text \<open>\<^verbatim>\<open>Object.entries(x)\<close> of an object or an array.\<close>

fun entries :: "json \<Rightarrow> (string \<times> json) list" where
  "entries (JObj kvs) = kvs"
| "entries (JArr xs) = zip (map show_nat [0..<length xs]) xs"
| "entries x = []"

definition parameter_of :: "string \<Rightarrow> string \<times> json \<Rightarrow> json" where
  "parameter_of place entry =
     JObj [(''name'', JStr (fst entry)),
           (''in'', JStr place),
           (''required'', JBool True),
           (''schema'', truthy_or (snd entry) (JObj [(''type'', JStr ''string'')]))]"

definition parameters_of :: "string \<Rightarrow> json \<Rightarrow> json list" where
  "parameters_of place params =
     (if is_object params then map (parameter_of place) (entries params) else [])"

text \<open>
  \<^verbatim>\<open>s.toLowerCase()\<close> on the letters of ASCII, which the names of the HTTP methods
  consist of; the other characters are left as they are.
\<close>

definition to_lower :: "string \<Rightarrow> string" where
  "to_lower s =
     map (\<lambda>ch. if 65 \<le> (of_char ch :: nat) \<and> (of_char ch :: nat) \<le> 90
               then char_of ((of_char ch :: nat) + 32) else ch) s"

text \<open>\<^verbatim>\<open>s.split(sep)[0]\<close> for a separator that is not empty.\<close>

fun before_first :: "string \<Rightarrow> string \<Rightarrow> string" where
  "before_first sep [] = []"
| "before_first sep (x # xs) =
     (if starts_with (x # xs) sep then [] else x # before_first sep xs)"

definition responses :: json where
  "responses =
     JObj [(''200'',
            JObj [(''description'', JStr ''Successful response''),
                  (''content'',
                   JObj [(''application/json'',
                          JObj [(''schema'', JObj [(''type'', JStr ''object'')])])])]),
           (''400'', JObj [(''description'', JStr ''Bad request'')]),
           (''401'', JObj [(''description'', JStr ''Unauthorized'')]),
           (''500'', JObj [(''description'', JStr ''Internal server error'')])]"

definition operation_of ::
  "string \<Rightarrow> string \<Rightarrow> string \<Rightarrow> json \<Rightarrow> json \<Rightarrow> json \<Rightarrow> json \<Rightarrow> json" where
  "operation_of method url path queryParams headers bodySchema description' =
     JObj ([(''summary'', truthy_or description' (JStr (method @ '' '' @ path))),
            (''description'',
             truthy_or description' (JStr (''Call '' @ method @ '' endpoint at '' @ url))),
            (''parameters'',
             JArr (parameters_of ''query'' queryParams @ parameters_of ''header'' headers)),
            (''responses'', responses)]
           @ (if is_object bodySchema
              then [(''requestBody'',
                     JObj [(''required'', JBool True),
                           (''content'',
                            JObj [(''application/json'',
                                   JObj [(''schema'', bodySchema)])])])]
              else []))"

text \<open>
  \<^verbatim>\<open>generateOpenApiSpec\<close>. The path is what the platform's \<^verbatim>\<open>new URL(url).pathname\<close>
  gives, and \<^verbatim>\<open>/\<close> where the constructor throws. The operation is built first, for any
  method and URL; then \<^verbatim>\<open>url.split\<close> and \<^verbatim>\<open>method.toLowerCase\<close> throw, in that order,
  unless the URL and the method are strings.
\<close>

definition generateOpenApiSpec ::
  "environment \<Rightarrow> string \<Rightarrow> json \<Rightarrow> json \<Rightarrow> json \<Rightarrow> json \<Rightarrow> json \<Rightarrow> json \<Rightarrow> exn + json" where
  "generateOpenApiSpec env toolName method url queryParams headers bodySchema description' =
     (case url of
        JStr u \<Rightarrow>
          (case method of
             JStr m \<Rightarrow>
               (let path = or_default (url_pathname env u) ''/''
                in Inr (JObj [(''openapi'', JStr ''3.1.0''),
                              (''info'',
                               JObj [(''title'', JStr toolName),
                                     (''description'',
                                      truthy_or description'
                                        (JStr (''OpenAPI spec for '' @ toolName))),
                                     (''version'', JStr ''1.0.0'')]),
                              (''servers'',
                               JArr [JObj [(''url'', JStr (before_first ''/api'' u)),
                                           (''description'', JStr ''Default server'')]]),
                              (''paths'',
                               JObj [(path,
                                      JObj [(to_lower m,
                                             operation_of m u path queryParams headers
                                               bodySchema description')])])]))
           | _ \<Rightarrow> Inl (TypeError (cannot_call ''method'' method ''toLowerCase'')))
      | _ \<Rightarrow> Inl (TypeError (cannot_call ''url'' url ''split'')))"

section \<open>ValidationsService\<close>

record AuthConfigDto =
  api_key :: "string option"
  api_key_param_name :: "string option"
  api_key_location :: "string option"

record AuthDto =
  type :: string
  provider_name :: "string option"
  config :: "AuthConfigDto option"

text \<open>\<^verbatim>\<open>!x\<close> on an optional string.\<close>

definition falsy :: "string option \<Rightarrow> bool" where
  "falsy x = (case x of None \<Rightarrow> True | Some s \<Rightarrow> s = [])"

definition api_key_required :: string where
  "api_key_required =
     ''api_key is required in auth.config when auth.type is '' @ [CHR 0x22] @ ''api_key''
       @ [CHR 0x22]"

definition provider_name_required :: string where
  "provider_name_required =
     ''auth.provider_name is required when auth.type is '' @ [CHR 0x22] @ ''api_key''
       @ [CHR 0x22]"

definition validateAuth :: "AuthDto option \<Rightarrow> exn + unit" where
  "validateAuth auth =
     (case auth of
        None \<Rightarrow> Inr ()
      | Some a \<Rightarrow>
          if type a \<noteq> ''api_key'' then Inr ()
          else if (case config a of None \<Rightarrow> True | Some cfg \<Rightarrow> falsy (api_key cfg))
          then Inl (BadRequestException api_key_required)
          else if falsy (provider_name a)
          then Inl (BadRequestException provider_name_required)
          else Inr ())"

definition spec_fields_required :: string where
  "spec_fields_required =
     ''OpenAPI spec must contain '' @ [CHR 0x27] @ ''openapi'' @ [CHR 0x27] @ '' or ''
       @ [CHR 0x27] @ ''swagger'' @ [CHR 0x27] @ '' field''"

text \<open>\<^verbatim>\<open>spec.openapi\<close> is a plain property read: it throws on \<^verbatim>\<open>null\<close> and \<^verbatim>\<open>undefined\<close>.\<close>

definition validateOpenApiSpec :: "json \<Rightarrow> exn + unit" where
  "validateOpenApiSpec spec =
     (if spec = JUndefined \<or> spec = JNull
      then Inl (TypeError (cannot_read spec ''openapi''))
      else if \<not> truthy (get_prop spec ''openapi'') \<and> \<not> truthy (get_prop spec ''swagger'')
      then Inl (BadRequestException spec_fields_required)
      else Inr ())"

section \<open>AppController\<close>

text \<open>
  A handler fails with the \<^verbatim>\<open>HttpException\<close> it builds (response body and status) or
  with an exception it throws again as it is.
\<close>

datatype http_failure = HttpException json nat | Rethrown exn

text \<open>
  The status of the response: that of the \<^verbatim>\<open>HttpException\<close>; a
  \<^verbatim>\<open>BadRequestException\<close> is the \<^verbatim>\<open>HttpException\<close> of status 400; any other
  exception is answered with 500.
\<close>

fun getStatus :: "http_failure \<Rightarrow> nat" where
  "getStatus (HttpException body status) = status"
| "getStatus (Rethrown (BadRequestException m)) = 400"
| "getStatus (Rethrown e) = 500"

definition INTERNAL_SERVER_ERROR :: nat where
  "INTERNAL_SERVER_ERROR = 500"

text \<open>
  \<^verbatim>\<open>new HttpException({status: 500, error: error.message}, 500)\<close>, the catch-all of the
  handlers.
\<close>

definition internal_error :: "exn \<Rightarrow> http_failure" where
  "internal_error error =
     HttpException (JObj [(''status'', JNum (Fin (of_nat INTERNAL_SERVER_ERROR))),
                          (''error'', JStr (message error))])
       INTERNAL_SERVER_ERROR"

record tool_request =
  gateway_id :: string
  tool_name :: string
  auth :: "AuthDto option"

record CreateToolFromUrlRequestDto = tool_request +
  openapi_spec_url :: string

record CreateToolFromSpecRequestDto = tool_request +
  openapi_spec :: json

text \<open>\<^verbatim>\<open>registerToolWithGateway\<close>: the placeholder credential, or the caller's API key.\<close>

definition registerToolWithGateway ::
  "client \<Rightarrow> string \<Rightarrow> string \<Rightarrow> string \<Rightarrow> AuthDto option \<Rightarrow> json \<Rightarrow> json io" where
  "registerToolWithGateway c gatewayId targetName openApiS3Uri auth' description' =
     (case (case auth' of
              None \<Rightarrow>
                Inr (Some ''placeholder-not-used'', Some (targetName @ ''-placeholder-apikey''),
                     ''X-Placeholder-Auth'', ''HEADER'')
            | Some a \<Rightarrow>
                if type a = ''api_key''
                then (case config a of
                        None \<Rightarrow> Inl (TypeError (cannot_read JUndefined ''api_key''))
                      | Some cfg \<Rightarrow>
                          Inr (api_key cfg, provider_name a,
                               or_default (api_key_param_name cfg) ''api_key'',
                               or_default (api_key_location cfg) ''QUERY_PARAMETER''))
                else Inr (Some ''placeholder-not-used'', Some (targetName @ ''-placeholder-apikey''),
                          ''X-Placeholder-Auth'', ''HEADER''))
      of
        Inl e \<Rightarrow> (Inl e, [])
      | Inr (apiKey, apiKeyProviderName, apiKeyParamName, apiKeyLocation) \<Rightarrow>
          bind_io (createOrGetApiKeyCredentialProvider c apiKeyProviderName apiKey)
            (\<lambda>credentialProviderArn.
               createGatewayTarget c gatewayId targetName openApiS3Uri credentialProviderArn
                 (Some apiKeyParamName) (Some apiKeyLocation) description'))"

definition created_message :: "string \<Rightarrow> string \<Rightarrow> string" where
  "created_message toolName gatewayId =
     ''Tool '' @ [CHR 0x27] @ toolName @ [CHR 0x27]
       @ '' successfully created and registered on gateway '' @ gatewayId"

definition createToolWithSpec ::
  "client \<Rightarrow> environment \<Rightarrow> string \<Rightarrow> string \<Rightarrow> json \<Rightarrow> AuthDto option \<Rightarrow> json
     \<Rightarrow> json io" where
  "createToolWithSpec c env gatewayId toolName spec auth' description' =
     bind_io (uploadOpenApiSpec c env spec toolName gatewayId (Some (OPENAPI_SPECS_BUCKET env)))
       (\<lambda>s3Uri.
          bind_io (registerToolWithGateway c gatewayId toolName s3Uri auth' description')
            (\<lambda>result.
               (Inr (JObj [(''status'', JStr ''success''),
                           (''tool_name'', JStr toolName),
                           (''gateway_id'', JStr gatewayId),
                           (''openapi_spec_path'', JStr s3Uri),
                           (''message'', JStr (created_message toolName gatewayId)),
                           (''target_id'', get_prop result ''targetId''),
                           (''gateway_arn'', get_prop result ''gatewayArn''),
                           (''description'', get_prop result ''description''),
                           (''created_at'', get_prop result ''createdAt''),
                           (''updated_at'', get_prop result ''updatedAt''),
                           (''last_synchronized_at'', get_prop result ''lastSynchronizedAt''),
                           (''target_status'', get_prop result ''status''),
                           (''status_reasons'', get_prop result ''statusReasons''),
                           (''target_configuration'', get_prop result ''targetConfiguration''),
                           (''credential_provider_configurations'',
                            get_prop result ''credentialProviderConfigurations'')]),
                [])))"

definition downloadAndCreateTool ::
  "client \<Rightarrow> environment \<Rightarrow> string \<Rightarrow> string \<Rightarrow> string \<Rightarrow> AuthDto option \<Rightarrow> json io" where
  "downloadAndCreateTool c env gatewayId toolName specUrl auth' =
     bind_io (send c (AxiosGet specUrl))
       (\<lambda>response.
          let spec = get_prop response ''data''
          in case validateOpenApiSpec spec of
               Inl e \<Rightarrow> (Inl e, [])
             | Inr u \<Rightarrow> createToolWithSpec c env gatewayId toolName spec auth' JUndefined)"

text \<open>\<^verbatim>\<open>POST /tools/from-url\<close>: every exception of the body becomes a 500.\<close>

definition createToolFromUrl ::
  "client \<Rightarrow> environment \<Rightarrow> CreateToolFromUrlRequestDto
     \<Rightarrow> (http_failure + json) \<times> command list" where
  "createToolFromUrl c env request =
     (case (case validateAuth (auth request) of
              Inl e \<Rightarrow> (Inl e, [])
            | Inr u \<Rightarrow>
                downloadAndCreateTool c env (gateway_id request) (tool_name request)
                  (openapi_spec_url request) (auth request))
      of
        (Inr response, sent) \<Rightarrow> (Inr response, sent)
      | (Inl error, sent) \<Rightarrow> (Inl (internal_error error), sent))"

text \<open>
  \<^verbatim>\<open>POST /tools/from-spec\<close>: a \<^verbatim>\<open>BadRequestException\<close> is thrown again, every other
  exception becomes a 500.
\<close>

definition createToolFromSpec ::
  "client \<Rightarrow> environment \<Rightarrow> CreateToolFromSpecRequestDto
     \<Rightarrow> (http_failure + json) \<times> command list" where
  "createToolFromSpec c env request =
     (case (case validateAuth (auth request) of
              Inl e \<Rightarrow> (Inl e, [])
            | Inr u \<Rightarrow>
                (case validateOpenApiSpec (openapi_spec request) of
                   Inl e \<Rightarrow> (Inl e, [])
                 | Inr u \<Rightarrow>
                     createToolWithSpec c env (gateway_id request) (tool_name request)
                       (openapi_spec request) (auth request) JUndefined))
      of
        (Inr response, sent) \<Rightarrow> (Inr response, sent)
      | (Inl error, sent) \<Rightarrow>
          (case error of
             BadRequestException m \<Rightarrow> (Inl (Rethrown error), sent)
           | _ \<Rightarrow> (Inl (internal_error error), sent)))"

text \<open>
  \<^verbatim>\<open>POST /tools/from-api-info\<close>: the specification is generated from the properties
  of \<^verbatim>\<open>request.api_info\<close>, and every exception of the body becomes a 500.
\<close>

record CreateToolFromApiInfoRequestDto = tool_request +
  api_info :: json

definition createToolFromApiInfo ::
  "client \<Rightarrow> environment \<Rightarrow> CreateToolFromApiInfoRequestDto
     \<Rightarrow> (http_failure + json) \<times> command list" where
  "createToolFromApiInfo c env request =
     (case (case validateAuth (auth request) of
              Inl e \<Rightarrow> (Inl e, [])
            | Inr u \<Rightarrow>
                if api_info request = JUndefined \<or> api_info request = JNull
                then (Inl (TypeError (cannot_read (api_info request) ''method'')), [])
                else (case generateOpenApiSpec env (tool_name request)
                             (get_prop (api_info request) ''method'')
                             (get_prop (api_info request) ''url'')
                             (get_prop (api_info request) ''query_params'')
                             (get_prop (api_info request) ''headers'')
                             (get_prop (api_info request) ''body_schema'')
                             (get_prop (api_info request) ''description'') of
                        Inl e \<Rightarrow> (Inl e, [])
                      | Inr spec \<Rightarrow>
                          createToolWithSpec c env (gateway_id request) (tool_name request)
                            spec (auth request)
                            (get_prop (api_info request) ''description'')))
      of
        (Inr response, sent) \<Rightarrow> (Inr response, sent)
      | (Inl error, sent) \<Rightarrow> (Inl (internal_error error), sent))"

section \<open>Example services\<close>

text \<open>
  A gateway \<^verbatim>\<open>gw\<close> holding one target \<^verbatim>\<open>t1\<close>, whose specification is at
  \<^verbatim>\<open>s3://b/old.json\<close> and which has one credential entry.
\<close>

definition stored_target :: "(string \<times> json) list" where
  "stored_target =
     [(''targetId'', JStr ''t1''),
      (''name'', JStr ''tool''),
      (''description'', JStr ''old description''),
      (''targetConfiguration'', targetConfig ''s3://b/old.json''),
      (''credentialProviderConfigurations'',
       credentialConfigs ''api_key'' (JStr ''arn:provider/old'') ''HEADER'')]"

definition resource_not_found :: ext_error where
  "resource_not_found =
     ExtError ''ResourceNotFoundException'' None ''Resource not found'' (Some 404)"

definition conflict :: ext_error where
  "conflict =
     ExtError ''ConflictException'' (Some ''ConflictException'')
       ''A target with this name already exists'' (Some 409)"

text \<open>
  The service around that gateway: the target \<^verbatim>\<open>t1\<close> can be read and replaced, every
  other target is unknown, the name \<^verbatim>\<open>tool\<close> is taken, and the bucket of the
  specifications does not exist yet.
\<close>

definition example_service :: client where
  "example_service cmd =
     (case cmd of
        GetGatewayTargetCommand g t \<Rightarrow>
          if g = ''gw'' \<and> t = ''t1'' then Inr stored_target else Inl resource_not_found
      | UpdateGatewayTargetCommand p \<Rightarrow>
          if gatewayIdentifier p = ''gw'' \<and> targetId p = ''t1''
          then Inr [(''targetId'', JStr ''t1''), (''status'', JStr ''UPDATING'')]
          else Inl resource_not_found
      | ListGatewayTargetsCommand g m t \<Rightarrow> Inr [(''items'', JArr [])]
      | ListGatewaysCommand m t \<Rightarrow> Inr [(''items'', JArr [])]
      | CreateGatewayTargetCommand p \<Rightarrow>
          if name p = ''tool'' then Inl conflict
          else Inr [(''targetId'', JStr ''t2''), (''status'', JStr ''CREATING'')]
      | CreateApiKeyCredentialProviderCommand n k \<Rightarrow>
          Inr [(''credentialProviderArn'', JStr ''arn:provider/new'')]
      | GetCallerIdentityCommand \<Rightarrow> Inr [(''Account'', JStr ''123456789012'')]
      | HeadBucketCommand b \<Rightarrow> Inl (ExtError ''NotFound'' None ''Not Found'' (Some 404))
      | CreateBucketCommand b l \<Rightarrow> Inr []
      | PutObjectCommand b k body t \<Rightarrow> Inr []
      | AxiosGet url \<Rightarrow> Inr [(''data'', JObj [(''openapi'', JStr ''3.1.0'')])])"

text \<open>The same service once the bucket exists.\<close>

definition example_service_with_bucket :: client where
  "example_service_with_bucket cmd =
     (case cmd of
        HeadBucketCommand b \<Rightarrow> Inr []
      | CreateBucketCommand b l \<Rightarrow>
          Inl (ExtError ''BucketAlreadyOwnedByYou'' (Some ''BucketAlreadyOwnedByYou'')
                 ''Your previous request to create the named bucket succeeded'' (Some 409))
      | _ \<Rightarrow> example_service cmd)"

text \<open>The same service when the bucket is created by someone else after the check.\<close>

definition example_service_racing :: client where
  "example_service_racing cmd =
     (case cmd of
        CreateBucketCommand b l \<Rightarrow>
          Inl (ExtError ''BucketAlreadyOwnedByYou'' (Some ''BucketAlreadyOwnedByYou'')
                 ''Your previous request to create the named bucket succeeded'' (Some 409))
      | _ \<Rightarrow> example_service cmd)"

text \<open>The same service when the target \<^verbatim>\<open>t1\<close> has no credential entry.\<close>

definition bare_target :: "(string \<times> json) list" where
  "bare_target =
     [(''targetId'', JStr ''t1''),
      (''name'', JStr ''tool''),
      (''targetConfiguration'', targetConfig ''s3://b/old.json'')]"

definition example_service_bare :: client where
  "example_service_bare cmd =
     (case cmd of
        GetGatewayTargetCommand g t \<Rightarrow>
          if g = ''gw'' \<and> t = ''t1'' then Inr bare_target else Inl resource_not_found
      | _ \<Rightarrow> example_service cmd)"

text \<open>The same service while the reads of targets are throttled.\<close>

definition throttled :: ext_error where
  "throttled = ExtError ''ThrottlingException'' None ''Rate exceeded'' (Some 429)"

definition example_service_throttled :: client where
  "example_service_throttled cmd =
     (case cmd of
        GetGatewayTargetCommand g t \<Rightarrow> Inl throttled
      | _ \<Rightarrow> example_service cmd)"

text \<open>The same service when the store refuses the object.\<close>

definition access_denied :: ext_error where
  "access_denied = ExtError ''AccessDenied'' (Some ''AccessDenied'') ''Access Denied'' (Some 403)"

definition example_service_refusing_store :: client where
  "example_service_refusing_store cmd =
     (case cmd of
        PutObjectCommand b k body t \<Rightarrow> Inl access_denied
      | _ \<Rightarrow> example_service cmd)"

definition example_environment :: environment where
  "example_environment =
     \<lparr> AWS_DEFAULT_REGION = None,
       OPENAPI_SPECS_BUCKET_var = Some ''specs'',
       now = 1700000000123,
       randomBytes8 = [0x00, 0x1f, 0xa0, 0xff, 0x10, 0x02, 0x9c, 0x7e],
       url_pathname =
         (\<lambda>u. if u = ''https://api.example.com/todos'' then Some ''/todos'' else None) \<rparr>"

definition no_api_key :: AuthDto where
  "no_api_key =
     \<lparr> type = ''api_key'',
       provider_name = Some ''my-provider'',
       config = Some \<lparr> api_key = None,
                       api_key_param_name = Some ''api_key'',
                       api_key_location = Some ''QUERY_PARAMETER'' \<rparr> \<rparr>"

definition minimal_spec :: json where
  "minimal_spec = JObj [(''openapi'', JStr ''3.1.0'')]"

definition todos_api_info :: json where
  "todos_api_info =
     JObj [(''method'', JStr ''GET''), (''url'', JStr ''https://api.example.com/todos'')]"

section \<open>Properties of updateGatewayTarget\<close>

lemma get_prop_JObjD: "get_prop x k = JObj kvs \<Longrightarrow> \<exists>ps. x = JObj ps"
  by (cases x) simp_all

lemma s3_of_JObjD:
  assumes "s3_of cfg = JObj s3"
  shows "\<exists>a b d. cfg = JObj a \<and> get_prop cfg ''mcp'' = JObj b
           \<and> get_prop (JObj b) ''openApiSchema'' = JObj d \<and> get_prop (JObj d) ''s3'' = JObj s3"
proof -
  from assms obtain d where d: "get_prop (get_prop cfg ''mcp'') ''openApiSchema'' = JObj d"
    unfolding s3_of_def using get_prop_JObjD by blast
  then obtain b where b: "get_prop cfg ''mcp'' = JObj b"
    using get_prop_JObjD by blast
  then obtain a where a: "cfg = JObj a"
    using get_prop_JObjD by blast
  from assms d b show ?thesis
    unfolding s3_of_def using a by simp
qed

text \<open>After the assignment the URI reads back, when the path to it exists.\<close>

lemma assign_s3_uri_reads_back:
  assumes "s3_of cfg = JObj s3"
  shows "\<exists>cfg'. assign_s3_uri cfg v = Inr cfg' \<and> s3_uri cfg' = v"
proof -
  from s3_of_JObjD [OF assms] obtain a b d where
    a: "cfg = JObj a" and b: "get_prop cfg ''mcp'' = JObj b"
    and d: "get_prop (JObj b) ''openApiSchema'' = JObj d"
    and s: "get_prop (JObj d) ''s3'' = JObj s3"
    by blast
  have "assign_s3_uri cfg v =
          Inr (with_child (JObj a) ''mcp'' (with_child (JObj b) ''openApiSchema''
                 (with_child (JObj d) ''s3'' (JObj (AList.update ''uri'' v s3)))))"
    using a b d s by (simp add: assign_s3_uri_def Let_def)
  moreover have "s3_uri (with_child (JObj a) ''mcp'' (with_child (JObj b) ''openApiSchema''
                 (with_child (JObj d) ''s3'' (JObj (AList.update ''uri'' v s3))))) = v"
    unfolding s3_uri_def s3_of_def by (simp add: update_conv')
  ultimately show ?thesis by simp
qed

text \<open>What is sent when the target can be read and the merge succeeds.\<close>

lemma updateGatewayTarget_existing:
  assumes "c (GetGatewayTargetCommand gid tid) = Inr t"
    and "buildUpdateParams (JObj t) gid tid nm cfg desc creds = Inr p"
  shows "snd (updateGatewayTarget c gid tid nm cfg desc creds)
           = [GetGatewayTargetCommand gid tid, UpdateGatewayTargetCommand p]"
  using assms by (simp add: updateGatewayTarget_def getGatewayTarget_def split: sum.splits)

text \<open>Whatever is sent as an update is the merge of the request with what was read.\<close>

lemma updateGatewayTarget_sent:
  assumes "UpdateGatewayTargetCommand p \<in> set (snd (updateGatewayTarget c gid tid nm cfg desc creds))"
  shows "buildUpdateParams
           (case c (GetGatewayTargetCommand gid tid) of Inr t \<Rightarrow> JObj t | Inl e \<Rightarrow> JNull)
           gid tid nm cfg desc creds = Inr p"
  using assms
  by (auto simp: updateGatewayTarget_def getGatewayTarget_def Let_def
           split: sum.splits if_splits)

lemma buildUpdateParams_fields:
  assumes "buildUpdateParams existing gid tid nm cfg desc creds = Inr p"
  shows "description p = desc"
    and "credentialProviderConfigurations p = chooseCredentials existing creds"
    and "name p = nm" and "gatewayIdentifier p = gid" and "targetId p = tid"
  using assms by (auto simp: buildUpdateParams_def split: sum.splits)

text \<open>
  C1, as amended. When the new configuration holds an object at
  \<^verbatim>\<open>mcp.openApiSchema.s3\<close> whose \<^verbatim>\<open>uri\<close> is empty or absent and the current record
  has a non-empty URI, the update that is submitted carries the current URI.
\<close>

theorem update_splices_existing_uri:
  assumes "c (GetGatewayTargetCommand gid tid) = Inr t"
    and "s3_of cfg = JObj s3"
    and "\<not> truthy (s3_uri cfg)"
    and "truthy (s3_uri (get_prop (JObj t) ''targetConfiguration''))"
  shows "\<exists>p. snd (updateGatewayTarget c gid tid nm cfg desc creds)
               = [GetGatewayTargetCommand gid tid, UpdateGatewayTargetCommand p]
           \<and> s3_uri (targetConfiguration p)
               = s3_uri (get_prop (JObj t) ''targetConfiguration'')"
proof -
  from s3_of_JObjD [OF assms(2)] have tc: "truthy cfg" by auto
  obtain cfg' where
    c': "assign_s3_uri cfg (s3_uri (get_prop (JObj t) ''targetConfiguration'')) = Inr cfg'"
    and u: "s3_uri cfg' = s3_uri (get_prop (JObj t) ''targetConfiguration'')"
    using assign_s3_uri_reads_back [OF assms(2)] by blast
  have "preserveS3Uri (JObj t) cfg = Inr cfg'"
    using assms tc c' by (simp add: preserveS3Uri_def Let_def)
  then have "\<exists>p. buildUpdateParams (JObj t) gid tid nm cfg desc creds = Inr p
                 \<and> targetConfiguration p = cfg'"
    using tc by (simp add: buildUpdateParams_def chooseTargetConfiguration_def)
  then show ?thesis
    using updateGatewayTarget_existing [where c = c and gid = gid and tid = tid and t = t,
            OF assms(1)] u
    by auto
qed

lemma s3_uri_targetConfig: "s3_uri (targetConfig u) = JStr u"
  by (simp add: targetConfig_def s3_uri_def s3_of_def)

lemma stored_target_uri:
  "s3_uri (get_prop (JObj stored_target) ''targetConfiguration'') = JStr ''s3://b/old.json''"
  by (simp add: stored_target_def targetConfig_def s3_uri_def s3_of_def)

lemma example_service_reads_t1:
  "example_service (GetGatewayTargetCommand ''gw'' ''t1'') = Inr stored_target"
  by (simp add: example_service_def)

text \<open>
  The scenario of the specification: the stored URI is \<^verbatim>\<open>s3://b/old.json\<close>, the
  request has a configuration with an empty URI.
\<close>

theorem update_splices_existing_uri_witness:
  "example_service (GetGatewayTargetCommand ''gw'' ''t1'') = Inr stored_target
   \<and> s3_of (targetConfig []) = JObj [(''uri'', JStr [])]
   \<and> \<not> truthy (s3_uri (targetConfig []))
   \<and> truthy (s3_uri (get_prop (JObj stored_target) ''targetConfiguration''))
   \<and> (\<exists>p. snd (updateGatewayTarget example_service ''gw'' ''t1'' ''tool'' (targetConfig [])
                  JUndefined JUndefined)
              = [GetGatewayTargetCommand ''gw'' ''t1'', UpdateGatewayTargetCommand p]
          \<and> s3_uri (targetConfiguration p) = JStr ''s3://b/old.json'')"
proof -
  have 1: "s3_of (targetConfig []) = JObj [(''uri'', JStr [])]"
    by (simp add: targetConfig_def s3_of_def)
  have 2: "\<not> truthy (s3_uri (targetConfig []))"
    by (simp add: targetConfig_def s3_uri_def s3_of_def)
  have 3: "truthy (s3_uri (get_prop (JObj stored_target) ''targetConfiguration''))"
    by (simp only: stored_target_uri truthy.simps) simp
  show ?thesis
    using update_splices_existing_uri [where c = example_service, OF example_service_reads_t1 1 2 3,
            of "''tool''" JUndefined JUndefined]
      example_service_reads_t1 1 2 3
    by (simp only: stored_target_uri) simp
qed

text \<open>
  C1 as stated fails: a new configuration without an object at
  \<^verbatim>\<open>mcp.openApiSchema.s3\<close> is submitted as it is, and the stored URI is not in it.
\<close>

theorem update_without_s3_object_loses_uri:
  "snd (updateGatewayTarget example_service ''gw'' ''t1'' ''tool''
          (JObj [(''mcp'', JObj [(''openApiSchema'', JObj [])])]) JUndefined JUndefined)
     = [GetGatewayTargetCommand ''gw'' ''t1'',
        UpdateGatewayTargetCommand
          \<lparr> gatewayIdentifier = ''gw'', name = ''tool'',
            targetConfiguration = JObj [(''mcp'', JObj [(''openApiSchema'', JObj [])])],
            credentialProviderConfigurations =
              credentialConfigs ''api_key'' (JStr ''arn:provider/old'') ''HEADER'',
            description = JUndefined, targetId = ''t1'' \<rparr>]
   \<and> s3_uri (JObj [(''mcp'', JObj [(''openApiSchema'', JObj [])])]) = JUndefined
   \<and> s3_uri (get_prop (JObj stored_target) ''targetConfiguration'') = JStr ''s3://b/old.json''"
  by (simp add: updateGatewayTarget_def getGatewayTarget_def example_service_def
        buildUpdateParams_def chooseTargetConfiguration_def preserveS3Uri_def
        chooseCredentials_def s3_uri_def s3_of_def stored_target_def targetConfig_def
        credentialConfigs_def Let_def)

text \<open>
  C4. When the request has no configuration and the target can be read, the update that
  is submitted carries the configuration of the current record, and so its URI.
\<close>

theorem update_without_configuration_keeps_existing:
  assumes "c (GetGatewayTargetCommand gid tid) = Inr t" and "\<not> truthy cfg"
  shows "\<exists>p. snd (updateGatewayTarget c gid tid nm cfg desc creds)
               = [GetGatewayTargetCommand gid tid, UpdateGatewayTargetCommand p]
           \<and> targetConfiguration p = get_prop (JObj t) ''targetConfiguration''
           \<and> s3_uri (targetConfiguration p)
               = s3_uri (get_prop (JObj t) ''targetConfiguration'')"
proof -
  have "preserveS3Uri (JObj t) (get_prop (JObj t) ''targetConfiguration'')
          = Inr (get_prop (JObj t) ''targetConfiguration'')"
    by (simp add: preserveS3Uri_def Let_def)
  then have "\<exists>p. buildUpdateParams (JObj t) gid tid nm cfg desc creds = Inr p
               \<and> targetConfiguration p = get_prop (JObj t) ''targetConfiguration''"
    using assms by (simp add: buildUpdateParams_def chooseTargetConfiguration_def)
  then show ?thesis
    using updateGatewayTarget_existing [where c = c and gid = gid and tid = tid and t = t,
            OF assms(1)]
    by auto
qed

theorem update_without_configuration_keeps_existing_witness:
  "example_service (GetGatewayTargetCommand ''gw'' ''t1'') = Inr stored_target
   \<and> \<not> truthy JUndefined
   \<and> (\<exists>p. snd (updateGatewayTarget example_service ''gw'' ''t1'' ''renamed'' JUndefined
                  JUndefined JUndefined)
              = [GetGatewayTargetCommand ''gw'' ''t1'', UpdateGatewayTargetCommand p]
          \<and> targetConfiguration p = targetConfig ''s3://b/old.json''
          \<and> s3_uri (targetConfiguration p) = JStr ''s3://b/old.json'')"
proof -
  have 1: "\<not> truthy JUndefined" by simp
  have 2: "get_prop (JObj stored_target) ''targetConfiguration'' = targetConfig ''s3://b/old.json''"
    by (simp add: stored_target_def)
  show ?thesis
    using update_without_configuration_keeps_existing [where c = example_service,
            OF example_service_reads_t1 1, of "''renamed''" JUndefined JUndefined]
      example_service_reads_t1 1
    by (simp only: stored_target_uri 2 s3_uri_targetConfig) simp
qed

text \<open>
  C3, as amended. In every update that is submitted, credential configurations that the
  caller gave (anything but \<^verbatim>\<open>undefined\<close>, so also the empty list) are in the payload
  as they were given. When the caller gave none and the current record was read, the
  payload has the credential configurations of the record if that is a list (or another
  truthy value) and none if the record has none. When the caller gave none and the read
  of the current record failed, the payload has none.
\<close>

theorem update_credentials_rule:
  assumes "UpdateGatewayTargetCommand p
             \<in> set (snd (updateGatewayTarget c gid tid nm cfg desc creds))"
  shows "(creds \<noteq> JUndefined \<longrightarrow> credentialProviderConfigurations p = creds)
       \<and> (creds = JUndefined \<longrightarrow> c (GetGatewayTargetCommand gid tid) = Inr t \<longrightarrow>
            ((\<exists>xs. get_prop (JObj t) ''credentialProviderConfigurations'' = JArr xs)
             \<or> truthy (get_prop (JObj t) ''credentialProviderConfigurations'')) \<longrightarrow>
            credentialProviderConfigurations p
              = get_prop (JObj t) ''credentialProviderConfigurations'')
       \<and> (creds = JUndefined \<longrightarrow> c (GetGatewayTargetCommand gid tid) = Inr t \<longrightarrow>
            \<not> truthy (get_prop (JObj t) ''credentialProviderConfigurations'') \<longrightarrow>
            credentialProviderConfigurations p = JUndefined)
       \<and> (creds = JUndefined \<longrightarrow> c (GetGatewayTargetCommand gid tid) = Inl e \<longrightarrow>
            credentialProviderConfigurations p = JUndefined)"
proof -
  from updateGatewayTarget_sent [OF assms]
  have "credentialProviderConfigurations p
          = chooseCredentials
              (case c (GetGatewayTargetCommand gid tid) of Inr t \<Rightarrow> JObj t | Inl e \<Rightarrow> JNull)
              creds"
    by (rule buildUpdateParams_fields(2))
  then show ?thesis
    by (auto simp: chooseCredentials_def Let_def simp del: get_prop.simps)
qed

lemma example_update_sent:
  "snd (updateGatewayTarget example_service ''gw'' ''t1'' ''tool'' JUndefined desc creds)
     = [GetGatewayTargetCommand ''gw'' ''t1'',
        UpdateGatewayTargetCommand
          \<lparr> gatewayIdentifier = ''gw'', name = ''tool'',
            targetConfiguration = targetConfig ''s3://b/old.json'',
            credentialProviderConfigurations =
              (if creds \<noteq> JUndefined then creds
               else credentialConfigs ''api_key'' (JStr ''arn:provider/old'') ''HEADER''),
            description = desc, targetId = ''t1'' \<rparr>]"
  by (simp add: updateGatewayTarget_def getGatewayTarget_def example_service_def
        buildUpdateParams_def chooseTargetConfiguration_def preserveS3Uri_def
        chooseCredentials_def s3_uri_def s3_of_def stored_target_def targetConfig_def
        credentialConfigs_def Let_def)

lemma example_update_sent_bare:
  "snd (updateGatewayTarget example_service_bare ''gw'' ''t1'' ''tool'' JUndefined JUndefined
          JUndefined)
     = [GetGatewayTargetCommand ''gw'' ''t1'',
        UpdateGatewayTargetCommand
          \<lparr> gatewayIdentifier = ''gw'', name = ''tool'',
            targetConfiguration = targetConfig ''s3://b/old.json'',
            credentialProviderConfigurations = JUndefined,
            description = JUndefined, targetId = ''t1'' \<rparr>]"
  by (simp add: updateGatewayTarget_def getGatewayTarget_def example_service_bare_def
        example_service_def buildUpdateParams_def chooseTargetConfiguration_def
        preserveS3Uri_def chooseCredentials_def s3_uri_def s3_of_def bare_target_def
        targetConfig_def Let_def)

lemma example_update_throttled:
  "updateGatewayTarget example_service_throttled ''gw'' ''t1'' ''tool''
       (targetConfig ''s3://b/new.json'') JUndefined JUndefined
     = (Inr (JObj [(''targetId'', JStr ''t1''), (''status'', JStr ''UPDATING'')]),
        [GetGatewayTargetCommand ''gw'' ''t1'',
         UpdateGatewayTargetCommand
           \<lparr> gatewayIdentifier = ''gw'', name = ''tool'',
             targetConfiguration = targetConfig ''s3://b/new.json'',
             credentialProviderConfigurations = JUndefined,
             description = JUndefined, targetId = ''t1'' \<rparr>])"
  by (simp add: updateGatewayTarget_def getGatewayTarget_def example_service_throttled_def
        example_service_def throttled_def buildUpdateParams_def chooseTargetConfiguration_def
        preserveS3Uri_def chooseCredentials_def targetConfig_def Let_def)

text \<open>
  An explicit empty list clears the credentials; no list keeps the stored entry, leaves
  a target without credentials without them, and sends none when the read is throttled.
\<close>

theorem update_credentials_rule_witness:
  "UpdateGatewayTargetCommand
     \<lparr> gatewayIdentifier = ''gw'', name = ''tool'',
       targetConfiguration = targetConfig ''s3://b/old.json'',
       credentialProviderConfigurations = JArr [],
       description = JUndefined, targetId = ''t1'' \<rparr>
     \<in> set (snd (updateGatewayTarget example_service ''gw'' ''t1'' ''tool'' JUndefined
                    JUndefined (JArr [])))
   \<and> JArr [] \<noteq> JUndefined
   \<and> UpdateGatewayTargetCommand
     \<lparr> gatewayIdentifier = ''gw'', name = ''tool'',
       targetConfiguration = targetConfig ''s3://b/old.json'',
       credentialProviderConfigurations =
         credentialConfigs ''api_key'' (JStr ''arn:provider/old'') ''HEADER'',
       description = JUndefined, targetId = ''t1'' \<rparr>
     \<in> set (snd (updateGatewayTarget example_service ''gw'' ''t1'' ''tool'' JUndefined
                    JUndefined JUndefined))
   \<and> example_service (GetGatewayTargetCommand ''gw'' ''t1'') = Inr stored_target
   \<and> get_prop (JObj stored_target) ''credentialProviderConfigurations''
       = JArr [JObj [(''credentialProviderType'', JStr ''API_KEY''),
                     (''credentialProvider'',
                      JObj [(''apiKeyCredentialProvider'',
                             JObj [(''credentialParameterName'', JStr ''api_key''),
                                   (''providerArn'', JStr ''arn:provider/old''),
                                   (''credentialLocation'', JStr ''HEADER'')])])]]
   \<and> credentialConfigs ''api_key'' (JStr ''arn:provider/old'') ''HEADER''
       = get_prop (JObj stored_target) ''credentialProviderConfigurations''
   \<and> UpdateGatewayTargetCommand
     \<lparr> gatewayIdentifier = ''gw'', name = ''tool'',
       targetConfiguration = targetConfig ''s3://b/old.json'',
       credentialProviderConfigurations = JUndefined,
       description = JUndefined, targetId = ''t1'' \<rparr>
     \<in> set (snd (updateGatewayTarget example_service_bare ''gw'' ''t1'' ''tool'' JUndefined
                    JUndefined JUndefined))
   \<and> example_service_bare (GetGatewayTargetCommand ''gw'' ''t1'') = Inr bare_target
   \<and> \<not> truthy (get_prop (JObj bare_target) ''credentialProviderConfigurations'')
   \<and> UpdateGatewayTargetCommand
     \<lparr> gatewayIdentifier = ''gw'', name = ''tool'',
       targetConfiguration = targetConfig ''s3://b/new.json'',
       credentialProviderConfigurations = JUndefined,
       description = JUndefined, targetId = ''t1'' \<rparr>
     \<in> set (snd (updateGatewayTarget example_service_throttled ''gw'' ''t1'' ''tool''
                    (targetConfig ''s3://b/new.json'') JUndefined JUndefined))
   \<and> example_service_throttled (GetGatewayTargetCommand ''gw'' ''t1'') = Inl throttled"
proof -
  let ?cleared = "\<lparr> gatewayIdentifier = ''gw'', name = ''tool'',
       targetConfiguration = targetConfig ''s3://b/old.json'',
       credentialProviderConfigurations = JArr [],
       description = JUndefined, targetId = ''t1'' \<rparr>"
  let ?kept = "\<lparr> gatewayIdentifier = ''gw'', name = ''tool'',
       targetConfiguration = targetConfig ''s3://b/old.json'',
       credentialProviderConfigurations =
         credentialConfigs ''api_key'' (JStr ''arn:provider/old'') ''HEADER'',
       description = JUndefined, targetId = ''t1'' \<rparr>"
  let ?none = "\<lparr> gatewayIdentifier = ''gw'', name = ''tool'',
       targetConfiguration = targetConfig ''s3://b/old.json'',
       credentialProviderConfigurations = JUndefined,
       description = JUndefined, targetId = ''t1'' \<rparr>"
  let ?blind = "\<lparr> gatewayIdentifier = ''gw'', name = ''tool'',
       targetConfiguration = targetConfig ''s3://b/new.json'',
       credentialProviderConfigurations = JUndefined,
       description = JUndefined, targetId = ''t1'' \<rparr>"
  have 1: "UpdateGatewayTargetCommand ?cleared
             \<in> set (snd (updateGatewayTarget example_service ''gw'' ''t1'' ''tool'' JUndefined
                    JUndefined (JArr [])))"
    by (simp add: example_update_sent)
  have 2: "UpdateGatewayTargetCommand ?kept
             \<in> set (snd (updateGatewayTarget example_service ''gw'' ''t1'' ''tool'' JUndefined
                    JUndefined JUndefined))"
    by (simp add: example_update_sent)
  have 3: "get_prop (JObj stored_target) ''credentialProviderConfigurations''
       = JArr [JObj [(''credentialProviderType'', JStr ''API_KEY''),
                     (''credentialProvider'',
                      JObj [(''apiKeyCredentialProvider'',
                             JObj [(''credentialParameterName'', JStr ''api_key''),
                                   (''providerArn'', JStr ''arn:provider/old''),
                                   (''credentialLocation'', JStr ''HEADER'')])])]]"
    by (simp add: stored_target_def credentialConfigs_def)
  have 4: "credentialProviderConfigurations ?cleared = JArr []"
    using update_credentials_rule [OF 1, of stored_target throttled] by simp
  have 5: "credentialProviderConfigurations ?kept
             = get_prop (JObj stored_target) ''credentialProviderConfigurations''"
    using update_credentials_rule [OF 2, of stored_target throttled] example_service_reads_t1 3
    by (simp del: get_prop.simps)
  have 6: "UpdateGatewayTargetCommand ?none
             \<in> set (snd (updateGatewayTarget example_service_bare ''gw'' ''t1'' ''tool''
                    JUndefined JUndefined JUndefined))"
    by (simp add: example_update_sent_bare)
  have 7: "example_service_bare (GetGatewayTargetCommand ''gw'' ''t1'') = Inr bare_target"
    by (simp add: example_service_bare_def)
  have 8: "\<not> truthy (get_prop (JObj bare_target) ''credentialProviderConfigurations'')"
    by (simp add: bare_target_def)
  have 9: "credentialProviderConfigurations ?none = JUndefined"
    using update_credentials_rule [OF 6, of bare_target throttled] 7 8
    by (simp del: get_prop.simps)
  have 10: "UpdateGatewayTargetCommand ?blind
             \<in> set (snd (updateGatewayTarget example_service_throttled ''gw'' ''t1'' ''tool''
                    (targetConfig ''s3://b/new.json'') JUndefined JUndefined))"
    by (simp add: example_update_throttled)
  have 11: "example_service_throttled (GetGatewayTargetCommand ''gw'' ''t1'') = Inl throttled"
    by (simp add: example_service_throttled_def)
  have 12: "credentialProviderConfigurations ?blind = JUndefined"
    using update_credentials_rule [OF 10, of stored_target throttled] 11
    by (simp del: get_prop.simps)
  show ?thesis
    using 1 2 3 4 5 6 7 8 9 10 11 12 example_service_reads_t1 by (simp del: get_prop.simps)
qed

text \<open>
  C3 as stated fails: the target \<^verbatim>\<open>t1\<close> has one credential entry, its read is
  throttled, the request has a configuration and no credentials, and the update is
  accepted without credential configurations.
\<close>

theorem update_after_failed_read_drops_credentials:
  "example_service (GetGatewayTargetCommand ''gw'' ''t1'') = Inr stored_target
   \<and> get_prop (JObj stored_target) ''credentialProviderConfigurations''
       = credentialConfigs ''api_key'' (JStr ''arn:provider/old'') ''HEADER''
   \<and> example_service_throttled (GetGatewayTargetCommand ''gw'' ''t1'') = Inl throttled
   \<and> updateGatewayTarget example_service_throttled ''gw'' ''t1'' ''tool''
        (targetConfig ''s3://b/new.json'') JUndefined JUndefined
       = (Inr (JObj [(''targetId'', JStr ''t1''), (''status'', JStr ''UPDATING'')]),
          [GetGatewayTargetCommand ''gw'' ''t1'',
           UpdateGatewayTargetCommand
             \<lparr> gatewayIdentifier = ''gw'', name = ''tool'',
               targetConfiguration = targetConfig ''s3://b/new.json'',
               credentialProviderConfigurations = JUndefined,
               description = JUndefined, targetId = ''t1'' \<rparr>])"
  by (simp add: updateGatewayTarget_def getGatewayTarget_def example_service_throttled_def
        example_service_def throttled_def buildUpdateParams_def chooseTargetConfiguration_def
        preserveS3Uri_def chooseCredentials_def targetConfig_def stored_target_def Let_def)

text \<open>
  C5, as amended. In every update that is submitted the description is the one the
  caller gave, also when that is none: the current record's description is not used.
\<close>

theorem update_description_is_callers:
  assumes "UpdateGatewayTargetCommand p
             \<in> set (snd (updateGatewayTarget c gid tid nm cfg desc creds))"
  shows "description p = desc"
  using updateGatewayTarget_sent [OF assms] by (rule buildUpdateParams_fields(1))

theorem update_description_is_callers_witness:
  "UpdateGatewayTargetCommand
     \<lparr> gatewayIdentifier = ''gw'', name = ''tool'',
       targetConfiguration = targetConfig ''s3://b/old.json'',
       credentialProviderConfigurations =
         credentialConfigs ''api_key'' (JStr ''arn:provider/old'') ''HEADER'',
       description = JStr ''new description'', targetId = ''t1'' \<rparr>
     \<in> set (snd (updateGatewayTarget example_service ''gw'' ''t1'' ''tool'' JUndefined
                    (JStr ''new description'') JUndefined))
   \<and> description
        \<lparr> gatewayIdentifier = ''gw'', name = ''tool'',
          targetConfiguration = targetConfig ''s3://b/old.json'',
          credentialProviderConfigurations =
            credentialConfigs ''api_key'' (JStr ''arn:provider/old'') ''HEADER'',
          description = JStr ''new description'', targetId = ''t1'' \<rparr>
       = JStr ''new description''"
proof -
  have 1: "UpdateGatewayTargetCommand
     \<lparr> gatewayIdentifier = ''gw'', name = ''tool'',
       targetConfiguration = targetConfig ''s3://b/old.json'',
       credentialProviderConfigurations =
         credentialConfigs ''api_key'' (JStr ''arn:provider/old'') ''HEADER'',
       description = JStr ''new description'', targetId = ''t1'' \<rparr>
     \<in> set (snd (updateGatewayTarget example_service ''gw'' ''t1'' ''tool'' JUndefined
                    (JStr ''new description'') JUndefined))"
    by (simp add: example_update_sent)
  from update_description_is_callers [OF 1] 1 show ?thesis by blast
qed

text \<open>
  C5 as stated fails: the stored description is \<^verbatim>\<open>old description\<close>, the request has
  none, and the update that is submitted has none.
\<close>

theorem update_without_description_drops_it:
  "snd (updateGatewayTarget example_service ''gw'' ''t1'' ''tool'' JUndefined JUndefined
          JUndefined)
     = [GetGatewayTargetCommand ''gw'' ''t1'',
        UpdateGatewayTargetCommand
          \<lparr> gatewayIdentifier = ''gw'', name = ''tool'',
            targetConfiguration = targetConfig ''s3://b/old.json'',
            credentialProviderConfigurations =
              credentialConfigs ''api_key'' (JStr ''arn:provider/old'') ''HEADER'',
            description = JUndefined, targetId = ''t1'' \<rparr>]
   \<and> example_service (GetGatewayTargetCommand ''gw'' ''t1'') = Inr stored_target
   \<and> get_prop (JObj stored_target) ''description'' = JStr ''old description''"
  by (simp add: updateGatewayTarget_def getGatewayTarget_def example_service_def
        buildUpdateParams_def chooseTargetConfiguration_def preserveS3Uri_def
        chooseCredentials_def s3_uri_def s3_of_def stored_target_def targetConfig_def
        credentialConfigs_def Let_def)

text \<open>
  C2, as amended. When the read of the target fails (as it does for a target that does
  not exist), the failure is only logged. Without a configuration in the request the
  update then fails with the message that one is required, and nothing is written. With a
  configuration the write is attempted with the values of the request, and a write that
  the service rejects as not found fails with the not-found error.
\<close>

theorem update_of_unreadable_target:
  assumes "c (GetGatewayTargetCommand gid tid) = Inl e"
  shows "(\<not> truthy cfg \<longrightarrow>
            updateGatewayTarget c gid tid nm cfg desc creds
              = (Inl (Error required_message), [GetGatewayTargetCommand gid tid]))
       \<and> (truthy cfg \<longrightarrow>
            snd (updateGatewayTarget c gid tid nm cfg desc creds)
              = [GetGatewayTargetCommand gid tid,
                 UpdateGatewayTargetCommand
                   \<lparr> gatewayIdentifier = gid, name = nm, targetConfiguration = cfg,
                     credentialProviderConfigurations = creds, description = desc,
                     targetId = tid \<rparr>]
            \<and> (\<forall>e'. c (UpdateGatewayTargetCommand
                          \<lparr> gatewayIdentifier = gid, name = nm, targetConfiguration = cfg,
                            credentialProviderConfigurations = creds, description = desc,
                            targetId = tid \<rparr>) = Inl e'
                      \<and> err_name e' = ''ResourceNotFoundException''
                  \<longrightarrow> fst (updateGatewayTarget c gid tid nm cfg desc creds)
                        = Inl (Error (not_found_message tid gid))))"
  using assms
  by (auto simp: updateGatewayTarget_def getGatewayTarget_def buildUpdateParams_def
        chooseTargetConfiguration_def preserveS3Uri_def chooseCredentials_def Let_def
        split: sum.splits)

lemma example_service_no_such_target:
  "example_service (GetGatewayTargetCommand ''gw'' ''nope'') = Inl resource_not_found"
  by (simp add: example_service_def)

theorem update_of_unreadable_target_witness:
  "example_service (GetGatewayTargetCommand ''gw'' ''nope'') = Inl resource_not_found
   \<and> \<not> truthy JUndefined
   \<and> updateGatewayTarget example_service ''gw'' ''nope'' ''tool'' JUndefined JUndefined
        JUndefined
       = (Inl (Error required_message), [GetGatewayTargetCommand ''gw'' ''nope''])
   \<and> truthy (targetConfig ''s3://b/new.json'')
   \<and> example_service
        (UpdateGatewayTargetCommand
           \<lparr> gatewayIdentifier = ''gw'', name = ''tool'',
             targetConfiguration = targetConfig ''s3://b/new.json'',
             credentialProviderConfigurations = JUndefined, description = JUndefined,
             targetId = ''nope'' \<rparr>) = Inl resource_not_found
   \<and> err_name resource_not_found = ''ResourceNotFoundException''
   \<and> updateGatewayTarget example_service ''gw'' ''nope'' ''tool''
        (targetConfig ''s3://b/new.json'') JUndefined JUndefined
       = (Inl (Error (not_found_message ''nope'' ''gw'')),
          [GetGatewayTargetCommand ''gw'' ''nope'',
           UpdateGatewayTargetCommand
             \<lparr> gatewayIdentifier = ''gw'', name = ''tool'',
               targetConfiguration = targetConfig ''s3://b/new.json'',
               credentialProviderConfigurations = JUndefined, description = JUndefined,
               targetId = ''nope'' \<rparr>])"
proof -
  have 1: "\<not> truthy JUndefined" by simp
  have 2: "truthy (targetConfig ''s3://b/new.json'')" by (simp add: targetConfig_def)
  have 3: "example_service
        (UpdateGatewayTargetCommand
           \<lparr> gatewayIdentifier = ''gw'', name = ''tool'',
             targetConfiguration = targetConfig ''s3://b/new.json'',
             credentialProviderConfigurations = JUndefined, description = JUndefined,
             targetId = ''nope'' \<rparr>) = Inl resource_not_found"
    by (simp add: example_service_def)
  have 4: "err_name resource_not_found = ''ResourceNotFoundException''"
    by (simp add: resource_not_found_def)
  note a = update_of_unreadable_target [where c = example_service,
             OF example_service_no_such_target, of JUndefined "''tool''" JUndefined JUndefined]
  note b = update_of_unreadable_target [where c = example_service,
             OF example_service_no_such_target, of "targetConfig ''s3://b/new.json''" "''tool''"
             JUndefined JUndefined]
  from a 1 have 5: "updateGatewayTarget example_service ''gw'' ''nope'' ''tool'' JUndefined
        JUndefined JUndefined
       = (Inl (Error required_message), [GetGatewayTargetCommand ''gw'' ''nope''])"
    by blast
  from b 2 3 4 have 6: "snd (updateGatewayTarget example_service ''gw'' ''nope'' ''tool''
        (targetConfig ''s3://b/new.json'') JUndefined JUndefined)
      = [GetGatewayTargetCommand ''gw'' ''nope'',
           UpdateGatewayTargetCommand
             \<lparr> gatewayIdentifier = ''gw'', name = ''tool'',
               targetConfiguration = targetConfig ''s3://b/new.json'',
               credentialProviderConfigurations = JUndefined, description = JUndefined,
               targetId = ''nope'' \<rparr>]"
    and 7: "fst (updateGatewayTarget example_service ''gw'' ''nope'' ''tool''
        (targetConfig ''s3://b/new.json'') JUndefined JUndefined)
       = Inl (Error (not_found_message ''nope'' ''gw''))"
    by blast+
  from 6 7 have 8: "updateGatewayTarget example_service ''gw'' ''nope'' ''tool''
        (targetConfig ''s3://b/new.json'') JUndefined JUndefined
       = (Inl (Error (not_found_message ''nope'' ''gw'')),
          [GetGatewayTargetCommand ''gw'' ''nope'',
           UpdateGatewayTargetCommand
             \<lparr> gatewayIdentifier = ''gw'', name = ''tool'',
               targetConfiguration = targetConfig ''s3://b/new.json'',
               credentialProviderConfigurations = JUndefined, description = JUndefined,
               targetId = ''nope'' \<rparr>])"
    by (simp add: prod_eq_iff)
  from example_service_no_such_target 1 2 3 4 5 8 show ?thesis by blast
qed

text \<open>
  C2 as stated fails: for a target that does not exist and a request with a
  configuration, the write is attempted.
\<close>

theorem update_of_missing_target_attempts_write:
  "example_service (GetGatewayTargetCommand ''gw'' ''nope'') = Inl resource_not_found
   \<and> snd (updateGatewayTarget example_service ''gw'' ''nope'' ''tool''
            (targetConfig ''s3://b/new.json'') JUndefined JUndefined)
       = [GetGatewayTargetCommand ''gw'' ''nope'',
          UpdateGatewayTargetCommand
            \<lparr> gatewayIdentifier = ''gw'', name = ''tool'',
              targetConfiguration = targetConfig ''s3://b/new.json'',
              credentialProviderConfigurations = JUndefined, description = JUndefined,
              targetId = ''nope'' \<rparr>]"
  by (simp add: updateGatewayTarget_def getGatewayTarget_def example_service_def
        buildUpdateParams_def chooseTargetConfiguration_def preserveS3Uri_def
        chooseCredentials_def resource_not_found_def targetConfig_def Let_def)

section \<open>Properties of the list operations\<close>

text \<open>
  A \<^verbatim>\<open>maxResults\<close> below 1 or above 1000 (the infinities included) makes both list
  operations throw before anything is sent; without \<^verbatim>\<open>maxResults\<close>, or with one from
  1 to 1000, that error is not raised and the one request that is sent carries the value
  unchanged.
\<close>

lemma maxResults_range_check:
  "((\<exists>r. m = Fin r \<and> (r < 1 \<or> 1000 < r)) \<or> m = PosInfinity \<or> m = NegInfinity \<longrightarrow>
      listGatewayTargets c gid (Some m) tok = (Inl (Error max_results_message), [])
      \<and> listGateways c (Some m) tok = (Inl (Error max_results_message), []))
   \<and> ((\<exists>r. m = Fin r \<and> 1 \<le> r \<and> r \<le> 1000) \<longrightarrow>
      snd (listGatewayTargets c gid (Some m) tok)
        = [ListGatewayTargetsCommand gid (Some m) (truthy_token tok)]
      \<and> fst (listGatewayTargets c gid (Some m) tok) \<noteq> Inl (Error max_results_message)
      \<and> snd (listGateways c (Some m) tok) = [ListGatewaysCommand (Some m) (truthy_token tok)]
      \<and> fst (listGateways c (Some m) tok) \<noteq> Inl (Error max_results_message))
   \<and> snd (listGatewayTargets c gid None tok)
        = [ListGatewayTargetsCommand gid None (truthy_token tok)]
   \<and> fst (listGatewayTargets c gid None tok) \<noteq> Inl (Error max_results_message)
   \<and> snd (listGateways c None tok) = [ListGatewaysCommand None (truthy_token tok)]
   \<and> fst (listGateways c None tok) \<noteq> Inl (Error max_results_message)"
  by (auto simp: listGatewayTargets_def listGateways_def send_def js_gt_def
           split: sum.splits)

text \<open>
  C10 does not hold of the code. \<^verbatim>\<open>NaN\<close> is a defined \<^verbatim>\<open>maxResults\<close> that is not
  from 1 to 1000, and it reaches the service as the conversion of a query string such as
  \<^verbatim>\<open>max_results=abc\<close>. Both comparisons of the check are false for it: neither list
  operation throws, and the request that is sent carries \<^verbatim>\<open>NaN\<close>.
\<close>

theorem maxResults_NaN_passes_the_check:
  "listGatewayTargets c gid (Some NaN) tok
     = send c (ListGatewayTargetsCommand gid (Some NaN) (truthy_token tok))
   \<and> snd (listGatewayTargets c gid (Some NaN) tok)
       = [ListGatewayTargetsCommand gid (Some NaN) (truthy_token tok)]
   \<and> fst (listGatewayTargets c gid (Some NaN) tok) \<noteq> Inl (Error max_results_message)
   \<and> listGateways c (Some NaN) tok = send c (ListGatewaysCommand (Some NaN) (truthy_token tok))
   \<and> snd (listGateways c (Some NaN) tok) = [ListGatewaysCommand (Some NaN) (truthy_token tok)]
   \<and> fst (listGateways c (Some NaN) tok) \<noteq> Inl (Error max_results_message)
   \<and> listGatewayTargets example_service ''gw'' (Some NaN) None
       = (Inr (JObj [(''items'', JArr [])]), [ListGatewayTargetsCommand ''gw'' (Some NaN) None])
   \<and> listGateways example_service (Some NaN) None
       = (Inr (JObj [(''items'', JArr [])]), [ListGatewaysCommand (Some NaN) None])"
  by (auto simp: listGatewayTargets_def listGateways_def send_def js_gt_def truthy_token_def
        example_service_def split: sum.splits)

section \<open>Properties of the upload\<close>

lemma length_to_hex: "length (to_hex bs) = 2 * length bs"
  by (induction bs) (simp_all add: to_hex_def hex_byte_def)

text \<open>Which bucket is used, and what was sent to find its name.\<close>

lemma bucketNameOrDefault_returns:
  assumes "bucketNameOrDefault c env bucketName = (Inr b, asked)"
  shows "(bucketName = Some b \<and> b \<noteq> [] \<and> asked = [])
       \<or> ((bucketName = None \<or> bucketName = Some [])
           \<and> (\<exists>identity. c GetCallerIdentityCommand = Inr identity
                  \<and> b = default_bucket env (JObj identity))
           \<and> asked = [GetCallerIdentityCommand])"
  using assms
  by (auto simp: bucketNameOrDefault_def bind_io_def send_def
           split: option.splits if_splits sum.splits)

lemma bucketNameOrDefault_resolved:
  assumes "(bucketName = Some bn \<and> bn \<noteq> [] \<and> asked = [])
         \<or> ((bucketName = None \<or> bucketName = Some [])
             \<and> c GetCallerIdentityCommand = Inr identity
             \<and> bn = default_bucket env (JObj identity)
             \<and> asked = [GetCallerIdentityCommand])"
  shows "bucketNameOrDefault c env bucketName = (Inr bn, asked)"
  using assms by (auto simp: bucketNameOrDefault_def bind_io_def send_def)

text \<open>When the check of the bucket returns, and what it has sent by then.\<close>

lemma headOrCreateBucket_returns:
  assumes "headOrCreateBucket c env b = (Inr b', sent)"
  shows "b' = b
       \<and> ((\<exists>h. c (HeadBucketCommand b) = Inr h) \<and> sent = [HeadBucketCommand b]
          \<or> (\<exists>e. c (HeadBucketCommand b) = Inl e
                 \<and> (err_Code e = Some ''NoSuchBucket'' \<or> err_httpStatusCode e = Some 404))
            \<and> sent = [HeadBucketCommand b, createBucketParams env b])"
  using assms
  by (auto simp: headOrCreateBucket_def split: sum.splits if_splits)

lemma headOrCreateBucket_exists:
  assumes "c (HeadBucketCommand b) = Inr h"
  shows "headOrCreateBucket c env b = (Inr b, [HeadBucketCommand b])"
  using assms by (simp add: headOrCreateBucket_def)

lemma headOrCreateBucket_creates:
  assumes "c (HeadBucketCommand b) = Inl e"
    and "err_Code e = Some ''NoSuchBucket'' \<or> err_httpStatusCode e = Some 404"
    and "c (createBucketParams env b) = Inr h
         \<or> c (createBucketParams env b) = Inl e'
            \<and> (err_Code e' = Some ''BucketAlreadyOwnedByYou''
                \<or> err_Code e' = Some ''BucketAlreadyExists'')"
  shows "headOrCreateBucket c env b = (Inr b, [HeadBucketCommand b, createBucketParams env b])"
  using assms by (auto simp: headOrCreateBucket_def)

lemma uploadOpenApiSpec_after:
  assumes "bucketNameOrDefault c env bucketName = (Inr b, asked)"
    and "headOrCreateBucket c env b = (Inr b, sent)"
    and "c (PutObjectCommand b (objectKey env gid tool) spec ''application/json'') = Inr r"
  shows "uploadOpenApiSpec c env spec tool gid bucketName
           = (Inr (''s3://'' @ b @ ''/'' @ objectKey env gid tool),
              asked @ sent
                @ [PutObjectCommand b (objectKey env gid tool) spec ''application/json''])"
  using assms by (simp add: uploadOpenApiSpec_def ensureS3Bucket_def bind_io_def send_def)

lemma uploadOpenApiSpec_returns:
  assumes "fst (uploadOpenApiSpec c env spec tool gid bucketName) = Inr uri"
  shows "\<exists>b asked sent r.
           bucketNameOrDefault c env bucketName = (Inr b, asked)
           \<and> headOrCreateBucket c env b = (Inr b, sent)
           \<and> c (PutObjectCommand b (objectKey env gid tool) spec ''application/json'') = Inr r
           \<and> snd (uploadOpenApiSpec c env spec tool gid bucketName)
               = (asked @ sent)
                 @ [PutObjectCommand b (objectKey env gid tool) spec ''application/json'']
           \<and> uri = ''s3://'' @ b @ ''/'' @ objectKey env gid tool"
proof -
  obtain r0 asked where n: "bucketNameOrDefault c env bucketName = (r0, asked)"
    by (cases "bucketNameOrDefault c env bucketName")
  from assms n obtain b where b: "r0 = Inr b"
    by (cases r0) (auto simp: uploadOpenApiSpec_def ensureS3Bucket_def bind_io_def)
  obtain r1 sent where h: "headOrCreateBucket c env b = (r1, sent)"
    by (cases "headOrCreateBucket c env b")
  from assms n b h obtain b' where b': "r1 = Inr b'"
    by (cases r1) (auto simp: uploadOpenApiSpec_def ensureS3Bucket_def bind_io_def)
  from headOrCreateBucket_returns [OF h [unfolded b']] have eq: "b' = b" by simp
  from assms n b h b' eq obtain r where
    r: "c (PutObjectCommand b (objectKey env gid tool) spec ''application/json'') = Inr r"
    by (cases "c (PutObjectCommand b (objectKey env gid tool) spec ''application/json'')")
       (auto simp: uploadOpenApiSpec_def ensureS3Bucket_def bind_io_def send_def)
  from uploadOpenApiSpec_after [OF n [unfolded b] h [unfolded b' eq] r] assms
  show ?thesis
    using n b h b' eq r by auto
qed

text \<open>
  C8. Whenever the upload returns, the last command it sent stored the specification,
  and was accepted, under the key
  \<^verbatim>\<open>gateways/{gatewayId}/tools/{toolName}/{timestamp}-{randomSuffix}.json\<close> of a bucket;
  the result is the \<^verbatim>\<open>s3://\<close> URI of that bucket and key; the bucket is the one named
  in the call, or the default one of the account; it has been checked, and it has been
  created exactly when the check reported it missing. With the bucket name given or the
  identity of the caller known, and the store accepted, the upload does return: after the
  check alone when the bucket exists, after creating the bucket when the check reports
  that it does not exist, also when the creation reports that the bucket exists already.
\<close>

theorem upload_stores_under_key:
  "(fst (uploadOpenApiSpec c env spec tool gid bucketName) = Inr uri \<longrightarrow>
      (\<exists>b sent r.
          snd (uploadOpenApiSpec c env spec tool gid bucketName)
            = sent @ [PutObjectCommand b
                  (''gateways/'' @ gid @ ''/tools/'' @ tool @ ''/'' @ show_int (now env div 1000)
                     @ ''-'' @ to_hex (randomBytes8 env) @ ''.json'')
                  spec ''application/json'']
          \<and> c (PutObjectCommand b
                  (''gateways/'' @ gid @ ''/tools/'' @ tool @ ''/'' @ show_int (now env div 1000)
                     @ ''-'' @ to_hex (randomBytes8 env) @ ''.json'')
                  spec ''application/json'') = Inr r
          \<and> uri = ''s3://'' @ b @ ''/'' @ ''gateways/'' @ gid @ ''/tools/'' @ tool @ ''/''
                    @ show_int (now env div 1000) @ ''-'' @ to_hex (randomBytes8 env)
                    @ ''.json''
          \<and> HeadBucketCommand b \<in> set sent
          \<and> ((\<exists>h. c (HeadBucketCommand b) = Inr h) \<and> createBucketParams env b \<notin> set sent
              \<or> (\<exists>e. c (HeadBucketCommand b) = Inl e
                     \<and> (err_Code e = Some ''NoSuchBucket'' \<or> err_httpStatusCode e = Some 404))
                \<and> createBucketParams env b \<in> set sent)
          \<and> (\<forall>bn. bucketName = Some bn \<and> bn \<noteq> [] \<longrightarrow> b = bn)
          \<and> (bucketName = None \<or> bucketName = Some [] \<longrightarrow>
                (\<exists>identity. c GetCallerIdentityCommand = Inr identity
                    \<and> b = default_bucket env (JObj identity)))))
   \<and> ((bucketName = Some bn \<and> bn \<noteq> [] \<and> asked = []
        \<or> (bucketName = None \<or> bucketName = Some [])
          \<and> c GetCallerIdentityCommand = Inr identity
          \<and> bn = default_bucket env (JObj identity)
          \<and> asked = [GetCallerIdentityCommand])
       \<and> c (PutObjectCommand bn (objectKey env gid tool) spec ''application/json'') = Inr r'
        \<longrightarrow>
        (c (HeadBucketCommand bn) = Inr h' \<longrightarrow>
           uploadOpenApiSpec c env spec tool gid bucketName
             = (Inr (''s3://'' @ bn @ ''/'' @ objectKey env gid tool),
                asked @ [HeadBucketCommand bn,
                         PutObjectCommand bn (objectKey env gid tool) spec
                           ''application/json'']))
        \<and> (c (HeadBucketCommand bn) = Inl e
             \<and> (err_Code e = Some ''NoSuchBucket'' \<or> err_httpStatusCode e = Some 404)
             \<and> (c (createBucketParams env bn) = Inr h'
                 \<or> c (createBucketParams env bn) = Inl e'
                    \<and> (err_Code e' = Some ''BucketAlreadyOwnedByYou''
                        \<or> err_Code e' = Some ''BucketAlreadyExists''))
           \<longrightarrow>
           uploadOpenApiSpec c env spec tool gid bucketName
             = (Inr (''s3://'' @ bn @ ''/'' @ objectKey env gid tool),
                asked @ [HeadBucketCommand bn, createBucketParams env bn,
                         PutObjectCommand bn (objectKey env gid tool) spec
                           ''application/json''])))
   \<and> objectKey env gid tool
       = ''gateways/'' @ gid @ ''/tools/'' @ tool @ ''/'' @ show_int (now env div 1000)
           @ ''-'' @ to_hex (randomBytes8 env) @ ''.json''"
proof (intro conjI impI)
  assume "fst (uploadOpenApiSpec c env spec tool gid bucketName) = Inr uri"
  from uploadOpenApiSpec_returns [OF this] obtain b asked checked r where
    n: "bucketNameOrDefault c env bucketName = (Inr b, asked)"
    and h: "headOrCreateBucket c env b = (Inr b, checked)"
    and r: "c (PutObjectCommand b (objectKey env gid tool) spec ''application/json'') = Inr r"
    and s: "snd (uploadOpenApiSpec c env spec tool gid bucketName)
              = (asked @ checked)
                @ [PutObjectCommand b (objectKey env gid tool) spec ''application/json'']"
    and u: "uri = ''s3://'' @ b @ ''/'' @ objectKey env gid tool"
    by blast
  note n' = bucketNameOrDefault_returns [OF n]
  note h' = headOrCreateBucket_returns [OF h]
  have 1: "HeadBucketCommand b \<in> set (asked @ checked)"
    using h' by auto
  have 2: "(\<exists>h. c (HeadBucketCommand b) = Inr h) \<and> createBucketParams env b \<notin> set (asked @ checked)
           \<or> (\<exists>e. c (HeadBucketCommand b) = Inl e
                  \<and> (err_Code e = Some ''NoSuchBucket'' \<or> err_httpStatusCode e = Some 404))
             \<and> createBucketParams env b \<in> set (asked @ checked)"
    using h' n' by (auto simp: createBucketParams_def)
  have 3: "\<forall>bn. bucketName = Some bn \<and> bn \<noteq> [] \<longrightarrow> b = bn"
    using n' by auto
  have 4: "bucketName = None \<or> bucketName = Some [] \<longrightarrow>
             (\<exists>identity. c GetCallerIdentityCommand = Inr identity
                 \<and> b = default_bucket env (JObj identity))"
    using n' by auto
  from r s u 1 2 3 4
  show "\<exists>b sent r.
          snd (uploadOpenApiSpec c env spec tool gid bucketName)
            = sent @ [PutObjectCommand b
                  (''gateways/'' @ gid @ ''/tools/'' @ tool @ ''/'' @ show_int (now env div 1000)
                     @ ''-'' @ to_hex (randomBytes8 env) @ ''.json'')
                  spec ''application/json'']
          \<and> c (PutObjectCommand b
                  (''gateways/'' @ gid @ ''/tools/'' @ tool @ ''/'' @ show_int (now env div 1000)
                     @ ''-'' @ to_hex (randomBytes8 env) @ ''.json'')
                  spec ''application/json'') = Inr r
          \<and> uri = ''s3://'' @ b @ ''/'' @ ''gateways/'' @ gid @ ''/tools/'' @ tool @ ''/''
                    @ show_int (now env div 1000) @ ''-'' @ to_hex (randomBytes8 env)
                    @ ''.json''
          \<and> HeadBucketCommand b \<in> set sent
          \<and> ((\<exists>h. c (HeadBucketCommand b) = Inr h) \<and> createBucketParams env b \<notin> set sent
              \<or> (\<exists>e. c (HeadBucketCommand b) = Inl e
                     \<and> (err_Code e = Some ''NoSuchBucket'' \<or> err_httpStatusCode e = Some 404))
                \<and> createBucketParams env b \<in> set sent)
          \<and> (\<forall>bn. bucketName = Some bn \<and> bn \<noteq> [] \<longrightarrow> b = bn)
          \<and> (bucketName = None \<or> bucketName = Some [] \<longrightarrow>
                (\<exists>identity. c GetCallerIdentityCommand = Inr identity
                    \<and> b = default_bucket env (JObj identity)))"
    unfolding objectKey_def
    by (intro exI [of _ b] exI [of _ "asked @ checked"] exI [of _ r]) simp
next
  assume a: "(bucketName = Some bn \<and> bn \<noteq> [] \<and> asked = []
        \<or> (bucketName = None \<or> bucketName = Some [])
          \<and> c GetCallerIdentityCommand = Inr identity
          \<and> bn = default_bucket env (JObj identity)
          \<and> asked = [GetCallerIdentityCommand])
       \<and> c (PutObjectCommand bn (objectKey env gid tool) spec ''application/json'') = Inr r'"
    and hd: "c (HeadBucketCommand bn) = Inr h'"
  from a have n: "bucketNameOrDefault c env bucketName = (Inr bn, asked)"
    by (intro bucketNameOrDefault_resolved) blast
  have "headOrCreateBucket c env bn = (Inr bn, [HeadBucketCommand bn])"
    using hd by (rule headOrCreateBucket_exists [where c = c and b = bn and h = h'])
  from uploadOpenApiSpec_after [OF n this] a
  show "uploadOpenApiSpec c env spec tool gid bucketName
             = (Inr (''s3://'' @ bn @ ''/'' @ objectKey env gid tool),
                asked @ [HeadBucketCommand bn,
                         PutObjectCommand bn (objectKey env gid tool) spec
                           ''application/json''])"
    by simp
next
  assume a: "(bucketName = Some bn \<and> bn \<noteq> [] \<and> asked = []
        \<or> (bucketName = None \<or> bucketName = Some [])
          \<and> c GetCallerIdentityCommand = Inr identity
          \<and> bn = default_bucket env (JObj identity)
          \<and> asked = [GetCallerIdentityCommand])
       \<and> c (PutObjectCommand bn (objectKey env gid tool) spec ''application/json'') = Inr r'"
    and cr: "c (HeadBucketCommand bn) = Inl e
             \<and> (err_Code e = Some ''NoSuchBucket'' \<or> err_httpStatusCode e = Some 404)
             \<and> (c (createBucketParams env bn) = Inr h'
                 \<or> c (createBucketParams env bn) = Inl e'
                    \<and> (err_Code e' = Some ''BucketAlreadyOwnedByYou''
                        \<or> err_Code e' = Some ''BucketAlreadyExists''))"
  from a have n: "bucketNameOrDefault c env bucketName = (Inr bn, asked)"
    by (intro bucketNameOrDefault_resolved) blast
  from cr have "headOrCreateBucket c env bn
                  = (Inr bn, [HeadBucketCommand bn, createBucketParams env bn])"
    by (intro headOrCreateBucket_creates [where c = c and b = bn and e = e and h = h'
                and e' = e']) blast+
  from uploadOpenApiSpec_after [OF n this] a
  show "uploadOpenApiSpec c env spec tool gid bucketName
             = (Inr (''s3://'' @ bn @ ''/'' @ objectKey env gid tool),
                asked @ [HeadBucketCommand bn, createBucketParams env bn,
                         PutObjectCommand bn (objectKey env gid tool) spec
                           ''application/json''])"
    by simp
next
  show "objectKey env gid tool
       = ''gateways/'' @ gid @ ''/tools/'' @ tool @ ''/'' @ show_int (now env div 1000)
           @ ''-'' @ to_hex (randomBytes8 env) @ ''.json''"
    by (simp add: objectKey_def)
qed

lemma example_objectKey:
  "objectKey example_environment gid tool
     = ''gateways/'' @ gid @ ''/tools/'' @ tool @ ''/1700000000-001fa0ff10029c7e.json''"
  by (simp add: objectKey_def example_environment_def show_int_def show_nat.simps to_hex_def
        hex_byte_def)

lemma example_createBucketParams:
  "createBucketParams example_environment b = CreateBucketCommand b None"
  by (simp add: createBucketParams_def awsRegion_def or_default_def example_environment_def)

lemma example_default_bucket:
  "default_bucket example_environment (JObj [(''Account'', JStr ''123456789012'')])
     = ''agentcore-gateways-targets-openapi-specs-123456789012-us-east-1''"
  by (simp add: default_bucket_def account_of_def template_def awsRegion_def or_default_def
        example_environment_def)

text \<open>
  The bucket \<^verbatim>\<open>specs\<close> is created when it is missing, used when it exists, and used
  as well when its creation reports that it exists; without a name, the default bucket of
  the account is created and used.
\<close>

theorem upload_stores_under_key_witness:
  "uploadOpenApiSpec example_service example_environment minimal_spec ''tool'' ''gw''
       (Some ''specs'')
     = (Inr ''s3://specs/gateways/gw/tools/tool/1700000000-001fa0ff10029c7e.json'',
        [HeadBucketCommand ''specs'', CreateBucketCommand ''specs'' None,
         PutObjectCommand ''specs'' ''gateways/gw/tools/tool/1700000000-001fa0ff10029c7e.json''
           minimal_spec ''application/json''])
   \<and> uploadOpenApiSpec example_service_with_bucket example_environment minimal_spec ''tool''
       ''gw'' (Some ''specs'')
     = (Inr ''s3://specs/gateways/gw/tools/tool/1700000000-001fa0ff10029c7e.json'',
        [HeadBucketCommand ''specs'',
         PutObjectCommand ''specs'' ''gateways/gw/tools/tool/1700000000-001fa0ff10029c7e.json''
           minimal_spec ''application/json''])
   \<and> uploadOpenApiSpec example_service_racing example_environment minimal_spec ''tool''
       ''gw'' (Some ''specs'')
     = (Inr ''s3://specs/gateways/gw/tools/tool/1700000000-001fa0ff10029c7e.json'',
        [HeadBucketCommand ''specs'', CreateBucketCommand ''specs'' None,
         PutObjectCommand ''specs'' ''gateways/gw/tools/tool/1700000000-001fa0ff10029c7e.json''
           minimal_spec ''application/json''])
   \<and> uploadOpenApiSpec example_service example_environment minimal_spec ''tool'' ''gw'' None
     = (Inr (''s3://agentcore-gateways-targets-openapi-specs-123456789012-us-east-1/''
               @ ''gateways/gw/tools/tool/1700000000-001fa0ff10029c7e.json''),
        [GetCallerIdentityCommand,
         HeadBucketCommand ''agentcore-gateways-targets-openapi-specs-123456789012-us-east-1'',
         CreateBucketCommand ''agentcore-gateways-targets-openapi-specs-123456789012-us-east-1''
           None,
         PutObjectCommand ''agentcore-gateways-targets-openapi-specs-123456789012-us-east-1''
           ''gateways/gw/tools/tool/1700000000-001fa0ff10029c7e.json''
           minimal_spec ''application/json''])
   \<and> (\<exists>b sent r. snd (uploadOpenApiSpec example_service example_environment minimal_spec
                          ''tool'' ''gw'' (Some ''specs''))
               = sent @ [PutObjectCommand b
                           ''gateways/gw/tools/tool/1700000000-001fa0ff10029c7e.json''
                           minimal_spec ''application/json'']
             \<and> example_service
                  (PutObjectCommand b ''gateways/gw/tools/tool/1700000000-001fa0ff10029c7e.json''
                     minimal_spec ''application/json'') = Inr r
             \<and> ''s3://specs/gateways/gw/tools/tool/1700000000-001fa0ff10029c7e.json''
                 = ''s3://'' @ b @ ''/''
                   @ ''gateways/gw/tools/tool/1700000000-001fa0ff10029c7e.json''
             \<and> HeadBucketCommand b \<in> set sent)"
proof -
  let ?key = "objectKey example_environment ''gw'' ''tool''"
  let ?put = "PutObjectCommand ''specs'' ?key minimal_spec ''application/json''"
  let ?dflt = "default_bucket example_environment (JObj [(''Account'', JStr ''123456789012'')])"
  let ?nf = "ExtError ''NotFound'' None ''Not Found'' (Some 404)"
  let ?owned = "ExtError ''BucketAlreadyOwnedByYou'' (Some ''BucketAlreadyOwnedByYou'')
                 ''Your previous request to create the named bucket succeeded'' (Some 409)"
  have p1: "example_service ?put = Inr []" by (simp add: example_service_def)
  have p2: "example_service_with_bucket ?put = Inr []"
    by (simp add: example_service_with_bucket_def example_service_def)
  have p3: "example_service_racing ?put = Inr []"
    by (simp add: example_service_racing_def example_service_def)
  have p4: "example_service (PutObjectCommand ?dflt ?key minimal_spec ''application/json'')
              = Inr []"
    by (simp add: example_service_def)
  have h1: "example_service (HeadBucketCommand b) = Inl ?nf" for b
    by (simp add: example_service_def)
  have h2: "example_service_with_bucket (HeadBucketCommand ''specs'') = Inr []"
    by (simp add: example_service_with_bucket_def)
  have h3: "example_service_racing (HeadBucketCommand ''specs'') = Inl ?nf"
    by (simp add: example_service_racing_def example_service_def)
  have s: "err_Code ?nf = Some ''NoSuchBucket'' \<or> err_httpStatusCode ?nf = Some 404"
    by simp
  have c1: "example_service (createBucketParams example_environment b) = Inr []" for b
    by (simp add: example_createBucketParams example_service_def)
  have c3: "example_service_racing (createBucketParams example_environment ''specs'')
              = Inl ?owned
            \<and> (err_Code ?owned = Some ''BucketAlreadyOwnedByYou''
                \<or> err_Code ?owned = Some ''BucketAlreadyExists'')"
    by (simp add: example_createBucketParams example_service_racing_def)
  have i: "example_service GetCallerIdentityCommand = Inr [(''Account'', JStr ''123456789012'')]"
    by (simp add: example_service_def)
  note t1 = upload_stores_under_key [where c = example_service and env = example_environment
      and spec = minimal_spec and tool = "''tool''" and gid = "''gw''" and bn = "''specs''"
      and r' = "[]" and h' = "[]" and e = ?nf and e' = ?owned and asked = "[]"
      and bucketName = "Some ''specs''"
      and uri = "''s3://'' @ ''specs'' @ ''/'' @ ?key"]
  note t2 = upload_stores_under_key [where c = example_service_with_bucket
      and env = example_environment
      and spec = minimal_spec and tool = "''tool''" and gid = "''gw''" and bn = "''specs''"
      and r' = "[]" and h' = "[]" and asked = "[]" and bucketName = "Some ''specs''"]
  note t3 = upload_stores_under_key [where c = example_service_racing
      and env = example_environment
      and spec = minimal_spec and tool = "''tool''" and gid = "''gw''" and bn = "''specs''"
      and r' = "[]" and h' = "[]" and e = ?nf and e' = ?owned and asked = "[]"
      and bucketName = "Some ''specs''"]
  note t4 = upload_stores_under_key [where c = example_service and env = example_environment
      and spec = minimal_spec and tool = "''tool''" and gid = "''gw''" and bn = ?dflt
      and r' = "[]" and h' = "[]" and e = ?nf and e' = ?owned
      and asked = "[GetCallerIdentityCommand]" and bucketName = None
      and identity = "[(''Account'', JStr ''123456789012'')]"]
  have u1: "uploadOpenApiSpec example_service example_environment minimal_spec ''tool'' ''gw''
       (Some ''specs'')
     = (Inr (''s3://'' @ ''specs'' @ ''/'' @ ?key),
        [] @ [HeadBucketCommand ''specs'', createBucketParams example_environment ''specs'',
              ?put])"
    using t1 p1 h1 [of "''specs''"] s c1 [of "''specs''"] by blast
  have u2: "uploadOpenApiSpec example_service_with_bucket example_environment minimal_spec
       ''tool'' ''gw'' (Some ''specs'')
     = (Inr (''s3://'' @ ''specs'' @ ''/'' @ ?key), [] @ [HeadBucketCommand ''specs'', ?put])"
    using t2 p2 h2 by blast
  have u3: "uploadOpenApiSpec example_service_racing example_environment minimal_spec ''tool''
       ''gw'' (Some ''specs'')
     = (Inr (''s3://'' @ ''specs'' @ ''/'' @ ?key),
        [] @ [HeadBucketCommand ''specs'', createBucketParams example_environment ''specs'',
              ?put])"
    using t3 p3 h3 s c3 by blast
  have u4: "uploadOpenApiSpec example_service example_environment minimal_spec ''tool'' ''gw''
       None
     = (Inr (''s3://'' @ ?dflt @ ''/'' @ ?key),
        [GetCallerIdentityCommand]
        @ [HeadBucketCommand ?dflt, createBucketParams example_environment ?dflt,
           PutObjectCommand ?dflt ?key minimal_spec ''application/json''])"
    using t4 p4 h1 [of ?dflt] s c1 [of ?dflt] i by blast
  have k: "?key = ''gateways/gw/tools/tool/1700000000-001fa0ff10029c7e.json''"
    by (simp add: example_objectKey)
  have "fst (uploadOpenApiSpec example_service example_environment minimal_spec ''tool'' ''gw''
               (Some ''specs'')) = Inr (''s3://'' @ ''specs'' @ ''/'' @ ?key)"
    by (simp only: u1 fst_conv)
  with t1 have "\<exists>b sent r. snd (uploadOpenApiSpec example_service example_environment
                     minimal_spec ''tool'' ''gw'' (Some ''specs''))
               = sent @ [PutObjectCommand b ?key minimal_spec ''application/json'']
             \<and> example_service (PutObjectCommand b ?key minimal_spec ''application/json'')
                 = Inr r
             \<and> ''s3://'' @ ''specs'' @ ''/'' @ ?key = ''s3://'' @ b @ ''/'' @ ?key
             \<and> HeadBucketCommand b \<in> set sent"
    unfolding objectKey_def by blast
  then have a: "\<exists>b sent r. snd (uploadOpenApiSpec example_service example_environment
                     minimal_spec ''tool'' ''gw'' (Some ''specs''))
               = sent @ [PutObjectCommand b
                           ''gateways/gw/tools/tool/1700000000-001fa0ff10029c7e.json''
                           minimal_spec ''application/json'']
             \<and> example_service
                  (PutObjectCommand b ''gateways/gw/tools/tool/1700000000-001fa0ff10029c7e.json''
                     minimal_spec ''application/json'') = Inr r
             \<and> ''s3://specs/gateways/gw/tools/tool/1700000000-001fa0ff10029c7e.json''
                 = ''s3://'' @ b @ ''/''
                   @ ''gateways/gw/tools/tool/1700000000-001fa0ff10029c7e.json''
             \<and> HeadBucketCommand b \<in> set sent"
    unfolding k by simp
  have "uploadOpenApiSpec example_service example_environment minimal_spec ''tool'' ''gw''
       (Some ''specs'')
     = (Inr ''s3://specs/gateways/gw/tools/tool/1700000000-001fa0ff10029c7e.json'',
        [HeadBucketCommand ''specs'', CreateBucketCommand ''specs'' None,
         PutObjectCommand ''specs'' ''gateways/gw/tools/tool/1700000000-001fa0ff10029c7e.json''
           minimal_spec ''application/json''])"
    unfolding u1 k example_createBucketParams by simp
  moreover have "uploadOpenApiSpec example_service_with_bucket example_environment minimal_spec
       ''tool'' ''gw'' (Some ''specs'')
     = (Inr ''s3://specs/gateways/gw/tools/tool/1700000000-001fa0ff10029c7e.json'',
        [HeadBucketCommand ''specs'',
         PutObjectCommand ''specs'' ''gateways/gw/tools/tool/1700000000-001fa0ff10029c7e.json''
           minimal_spec ''application/json''])"
    unfolding u2 k by simp
  moreover have "uploadOpenApiSpec example_service_racing example_environment minimal_spec
       ''tool'' ''gw'' (Some ''specs'')
     = (Inr ''s3://specs/gateways/gw/tools/tool/1700000000-001fa0ff10029c7e.json'',
        [HeadBucketCommand ''specs'', CreateBucketCommand ''specs'' None,
         PutObjectCommand ''specs'' ''gateways/gw/tools/tool/1700000000-001fa0ff10029c7e.json''
           minimal_spec ''application/json''])"
    unfolding u3 k example_createBucketParams by simp
  moreover have "uploadOpenApiSpec example_service example_environment minimal_spec ''tool''
       ''gw'' None
     = (Inr (''s3://agentcore-gateways-targets-openapi-specs-123456789012-us-east-1/''
               @ ''gateways/gw/tools/tool/1700000000-001fa0ff10029c7e.json''),
        [GetCallerIdentityCommand,
         HeadBucketCommand ''agentcore-gateways-targets-openapi-specs-123456789012-us-east-1'',
         CreateBucketCommand ''agentcore-gateways-targets-openapi-specs-123456789012-us-east-1''
           None,
         PutObjectCommand ''agentcore-gateways-targets-openapi-specs-123456789012-us-east-1''
           ''gateways/gw/tools/tool/1700000000-001fa0ff10029c7e.json''
           minimal_spec ''application/json''])"
    unfolding u4 k example_createBucketParams example_default_bucket by simp
  ultimately show ?thesis using a by blast
qed

section \<open>Properties of tool creation\<close>

lemma in_bind_io:
  assumes "x \<in> set (snd (bind_io m f))"
  shows "x \<in> set (snd m) \<or> (\<exists>a. fst m = Inr a \<and> x \<in> set (snd (f a)))"
  using assms by (cases m; cases "fst m") (auto simp: bind_io_def split: prod.splits)

lemma fst_bind_io: "fst m = Inr a \<Longrightarrow> fst (bind_io m f) = fst (f a)"
  by (cases m) (auto simp: bind_io_def split: prod.splits)

lemma fst_bind_io_Inl: "fst m = Inl e \<Longrightarrow> fst (bind_io m f) = Inl e"
  by (cases m) (auto simp: bind_io_def)

lemma snd_bind_io_return: "snd (bind_io m (\<lambda>a. (Inr (g a), []))) = snd m"
  by (cases m; cases "fst m") (auto simp: bind_io_def)

lemma snd_bind_io: "m = (Inr a, sent) \<Longrightarrow> snd (bind_io m f) = sent @ snd (f a)"
  by (auto simp: bind_io_def split: prod.splits)

text \<open>What an endpoint sends once the request is validated.\<close>

lemma snd_createToolFromSpec:
  assumes "validateAuth (auth request) = Inr ()"
    and "validateOpenApiSpec (openapi_spec request) = Inr ()"
  shows "snd (createToolFromSpec c env request)
           = snd (createToolWithSpec c env (gateway_id request) (tool_name request)
                    (openapi_spec request) (auth request) JUndefined)"
  using assms
  by (cases "createToolWithSpec c env (gateway_id request) (tool_name request)
               (openapi_spec request) (auth request) JUndefined")
     (auto simp: createToolFromSpec_def split: sum.splits exn.splits)

lemma snd_createToolFromUrl:
  assumes "validateAuth (auth request) = Inr ()"
    and "c (AxiosGet (openapi_spec_url request)) = Inr response"
    and "validateOpenApiSpec (get_prop (JObj response) ''data'') = Inr ()"
  shows "snd (createToolFromUrl c env request)
           = AxiosGet (openapi_spec_url request)
             # snd (createToolWithSpec c env (gateway_id request) (tool_name request)
                      (get_prop (JObj response) ''data'') (auth request) JUndefined)"
  using assms
  by (cases "createToolWithSpec c env (gateway_id request) (tool_name request)
               (get_prop (JObj response) ''data'') (auth request) JUndefined")
     (auto simp: createToolFromUrl_def downloadAndCreateTool_def send_def bind_io_def Let_def
           simp del: get_prop.simps split: sum.splits)

lemma snd_createToolFromApiInfo:
  assumes "validateAuth (auth request) = Inr ()"
    and "api_info request \<noteq> JUndefined" and "api_info request \<noteq> JNull"
    and "generateOpenApiSpec env (tool_name request)
           (get_prop (api_info request) ''method'') (get_prop (api_info request) ''url'')
           (get_prop (api_info request) ''query_params'')
           (get_prop (api_info request) ''headers'')
           (get_prop (api_info request) ''body_schema'')
           (get_prop (api_info request) ''description'') = Inr spec"
  shows "snd (createToolFromApiInfo c env request)
           = snd (createToolWithSpec c env (gateway_id request) (tool_name request) spec
                    (auth request) (get_prop (api_info request) ''description''))"
  using assms
  by (cases "createToolWithSpec c env (gateway_id request) (tool_name request) spec
               (auth request) (get_prop (api_info request) ''description'')")
     (auto simp: createToolFromApiInfo_def simp del: get_prop.simps split: sum.splits)

lemma validateAuth_placeholder:
  assumes "auth' = None \<or> (\<exists>a. auth' = Some a \<and> type a \<noteq> ''api_key'')"
  shows "validateAuth auth' = Inr ()"
  using assms by (auto simp: validateAuth_def)

text \<open>The registration with the placeholder credential.\<close>

lemma registerToolWithGateway_placeholder:
  assumes "auth' = None \<or> (\<exists>a. auth' = Some a \<and> type a \<noteq> ''api_key'')"
  shows "\<exists>rest. snd (registerToolWithGateway c gid tool uri auth' d)
                 = CreateApiKeyCredentialProviderCommand (Some (tool @ ''-placeholder-apikey''))
                     (Some ''placeholder-not-used'') # rest
           \<and> (\<forall>response.
                 c (CreateApiKeyCredentialProviderCommand (Some (tool @ ''-placeholder-apikey''))
                      (Some ''placeholder-not-used'')) = Inr response \<longrightarrow>
                 (\<exists>p. rest = [CreateGatewayTargetCommand p]
                    \<and> name p = tool \<and> gatewayIdentifier p = gid
                    \<and> targetConfiguration p = targetConfig uri
                    \<and> credentialProviderConfigurations p
                        = credentialConfigs ''X-Placeholder-Auth''
                            (if truthy (get_prop (JObj response) ''credentialProviderArn'')
                             then get_prop (JObj response) ''credentialProviderArn''
                             else JStr [])
                            ''HEADER''))"
  using assms
  by (auto simp: registerToolWithGateway_def createOrGetApiKeyCredentialProvider_def
        createGatewayTarget_def createTargetInput_def param_default_def
        bind_io_def Let_def
        simp del: get_prop.simps split: sum.splits)

lemma createToolWithSpec_placeholder:
  assumes "auth' = None \<or> (\<exists>a. auth' = Some a \<and> type a \<noteq> ''api_key'')"
    and "uploadOpenApiSpec c env spec tool gid (Some (OPENAPI_SPECS_BUCKET env))
           = (Inr uri, sent)"
  shows "\<exists>rest. snd (createToolWithSpec c env gid tool spec auth' d)
                 = sent @ CreateApiKeyCredentialProviderCommand
                            (Some (tool @ ''-placeholder-apikey''))
                            (Some ''placeholder-not-used'') # rest
           \<and> (\<forall>response.
                 c (CreateApiKeyCredentialProviderCommand (Some (tool @ ''-placeholder-apikey''))
                      (Some ''placeholder-not-used'')) = Inr response \<longrightarrow>
                 (\<exists>p. rest = [CreateGatewayTargetCommand p]
                    \<and> name p = tool \<and> gatewayIdentifier p = gid
                    \<and> targetConfiguration p = targetConfig uri
                    \<and> credentialProviderConfigurations p
                        = credentialConfigs ''X-Placeholder-Auth''
                            (if truthy (get_prop (JObj response) ''credentialProviderArn'')
                             then get_prop (JObj response) ''credentialProviderArn''
                             else JStr [])
                            ''HEADER''))"
proof -
  have "snd (createToolWithSpec c env gid tool spec auth' d)
          = sent @ snd (registerToolWithGateway c gid tool uri auth' d)"
    unfolding createToolWithSpec_def
    by (simp add: snd_bind_io [OF assms(2)] snd_bind_io_return del: get_prop.simps)
  with registerToolWithGateway_placeholder [OF assms(1), of c gid tool uri d]
  show ?thesis by auto
qed

text \<open>
  C9, as amended. A request to \<^verbatim>\<open>POST /tools/from-spec\<close>, \<^verbatim>\<open>POST /tools/from-url\<close>
  or \<^verbatim>\<open>POST /tools/from-api-info\<close> without \<^verbatim>\<open>auth\<close>, or with an \<^verbatim>\<open>auth\<close> of another
  type than \<^verbatim>\<open>api_key\<close>, whose specification is valid (downloaded, or generated) and has
  been uploaded, next creates the API key credential provider
  \<^verbatim>\<open>{toolName}-placeholder-apikey\<close> with the key \<^verbatim>\<open>placeholder-not-used\<close>, and when
  that succeeds creates the target for the uploaded specification with one credential
  configuration: that provider, in the header \<^verbatim>\<open>X-Placeholder-Auth\<close>.
\<close>

theorem placeholder_credential_is_attached:
  assumes "auth' = None \<or> (\<exists>a. auth' = Some a \<and> type a \<noteq> ''api_key'')"
    and "(auth fromSpec = auth'
          \<and> validateOpenApiSpec (openapi_spec fromSpec) = Inr ()
          \<and> uploadOpenApiSpec c env (openapi_spec fromSpec) (tool_name fromSpec)
               (gateway_id fromSpec) (Some (OPENAPI_SPECS_BUCKET env)) = (Inr uri, sent)
          \<and> tool = tool_name fromSpec \<and> gid = gateway_id fromSpec
          \<and> trace = snd (createToolFromSpec c env fromSpec) \<and> before = sent)
       \<or> (auth fromUrl = auth'
          \<and> c (AxiosGet (openapi_spec_url fromUrl)) = Inr downloaded
          \<and> validateOpenApiSpec (get_prop (JObj downloaded) ''data'') = Inr ()
          \<and> uploadOpenApiSpec c env (get_prop (JObj downloaded) ''data'') (tool_name fromUrl)
               (gateway_id fromUrl) (Some (OPENAPI_SPECS_BUCKET env)) = (Inr uri, sent)
          \<and> tool = tool_name fromUrl \<and> gid = gateway_id fromUrl
          \<and> trace = snd (createToolFromUrl c env fromUrl)
          \<and> before = AxiosGet (openapi_spec_url fromUrl) # sent)
       \<or> (auth fromApiInfo = auth'
          \<and> api_info fromApiInfo \<noteq> JUndefined \<and> api_info fromApiInfo \<noteq> JNull
          \<and> generateOpenApiSpec env (tool_name fromApiInfo)
               (get_prop (api_info fromApiInfo) ''method'')
               (get_prop (api_info fromApiInfo) ''url'')
               (get_prop (api_info fromApiInfo) ''query_params'')
               (get_prop (api_info fromApiInfo) ''headers'')
               (get_prop (api_info fromApiInfo) ''body_schema'')
               (get_prop (api_info fromApiInfo) ''description'') = Inr generated
          \<and> uploadOpenApiSpec c env generated (tool_name fromApiInfo)
               (gateway_id fromApiInfo) (Some (OPENAPI_SPECS_BUCKET env)) = (Inr uri, sent)
          \<and> tool = tool_name fromApiInfo \<and> gid = gateway_id fromApiInfo
          \<and> trace = snd (createToolFromApiInfo c env fromApiInfo) \<and> before = sent)"
  shows "\<exists>rest. trace = before @ CreateApiKeyCredentialProviderCommand
                                  (Some (tool @ ''-placeholder-apikey''))
                                  (Some ''placeholder-not-used'') # rest
           \<and> (\<forall>response.
                 c (CreateApiKeyCredentialProviderCommand (Some (tool @ ''-placeholder-apikey''))
                      (Some ''placeholder-not-used'')) = Inr response \<longrightarrow>
                 (\<exists>p. rest = [CreateGatewayTargetCommand p]
                    \<and> name p = tool \<and> gatewayIdentifier p = gid
                    \<and> targetConfiguration p
                        = JObj [(''mcp'',
                                 JObj [(''openApiSchema'',
                                        JObj [(''s3'', JObj [(''uri'', JStr uri)])])])]
                    \<and> credentialProviderConfigurations p
                        = JArr [JObj [(''credentialProviderType'', JStr ''API_KEY''),
                                      (''credentialProvider'',
                                       JObj [(''apiKeyCredentialProvider'',
                                              JObj [(''credentialParameterName'',
                                                     JStr ''X-Placeholder-Auth''),
                                                    (''providerArn'',
                                                     if truthy (get_prop (JObj response)
                                                                  ''credentialProviderArn'')
                                                     then get_prop (JObj response)
                                                            ''credentialProviderArn''
                                                     else JStr []),
                                                    (''credentialLocation'',
                                                     JStr ''HEADER'')])])]]))"
proof -
  note v = validateAuth_placeholder [OF assms(1)]
  from assms(2)
  have "\<exists>spec d. uploadOpenApiSpec c env spec tool gid (Some (OPENAPI_SPECS_BUCKET env))
                    = (Inr uri, sent)
              \<and> (\<exists>pre. before = pre @ sent
                    \<and> trace = pre @ snd (createToolWithSpec c env gid tool spec auth' d))"
  proof (elim disjE conjE)
    assume a: "auth fromSpec = auth'" "validateOpenApiSpec (openapi_spec fromSpec) = Inr ()"
      "uploadOpenApiSpec c env (openapi_spec fromSpec) (tool_name fromSpec)
         (gateway_id fromSpec) (Some (OPENAPI_SPECS_BUCKET env)) = (Inr uri, sent)"
      "tool = tool_name fromSpec" "gid = gateway_id fromSpec"
      "trace = snd (createToolFromSpec c env fromSpec)" "before = sent"
    have "trace = [] @ snd (createToolWithSpec c env gid tool (openapi_spec fromSpec) auth'
                              JUndefined)"
      using a v by (simp add: snd_createToolFromSpec)
    with a show ?thesis by (metis append_Nil)
  next
    assume a: "auth fromUrl = auth'" "c (AxiosGet (openapi_spec_url fromUrl)) = Inr downloaded"
      "validateOpenApiSpec (get_prop (JObj downloaded) ''data'') = Inr ()"
      "uploadOpenApiSpec c env (get_prop (JObj downloaded) ''data'') (tool_name fromUrl)
         (gateway_id fromUrl) (Some (OPENAPI_SPECS_BUCKET env)) = (Inr uri, sent)"
      "tool = tool_name fromUrl" "gid = gateway_id fromUrl"
      "trace = snd (createToolFromUrl c env fromUrl)"
      "before = AxiosGet (openapi_spec_url fromUrl) # sent"
    have "trace = [AxiosGet (openapi_spec_url fromUrl)]
                  @ snd (createToolWithSpec c env gid tool (get_prop (JObj downloaded) ''data'')
                           auth' JUndefined)"
      using a v
      by (simp add: snd_createToolFromUrl [where response = downloaded] del: get_prop.simps)
    moreover have "before = [AxiosGet (openapi_spec_url fromUrl)] @ sent"
      using a by simp
    ultimately show ?thesis using a(4,5,6) by blast
  next
    assume a: "auth fromApiInfo = auth'"
      "api_info fromApiInfo \<noteq> JUndefined" "api_info fromApiInfo \<noteq> JNull"
      "generateOpenApiSpec env (tool_name fromApiInfo)
         (get_prop (api_info fromApiInfo) ''method'')
         (get_prop (api_info fromApiInfo) ''url'')
         (get_prop (api_info fromApiInfo) ''query_params'')
         (get_prop (api_info fromApiInfo) ''headers'')
         (get_prop (api_info fromApiInfo) ''body_schema'')
         (get_prop (api_info fromApiInfo) ''description'') = Inr generated"
      "uploadOpenApiSpec c env generated (tool_name fromApiInfo)
         (gateway_id fromApiInfo) (Some (OPENAPI_SPECS_BUCKET env)) = (Inr uri, sent)"
      "tool = tool_name fromApiInfo" "gid = gateway_id fromApiInfo"
      "trace = snd (createToolFromApiInfo c env fromApiInfo)" "before = sent"
    have "trace = [] @ snd (createToolWithSpec c env gid tool generated auth'
                              (get_prop (api_info fromApiInfo) ''description''))"
      using a v
      by (simp add: snd_createToolFromApiInfo [where spec = generated] del: get_prop.simps)
    with a(5,6,7,9) show ?thesis by (metis append_Nil)
  qed
  then obtain spec d pre where
    up: "uploadOpenApiSpec c env spec tool gid (Some (OPENAPI_SPECS_BUCKET env))
           = (Inr uri, sent)"
    and b: "before = pre @ sent"
    and t: "trace = pre @ snd (createToolWithSpec c env gid tool spec auth' d)"
    by blast
  from createToolWithSpec_placeholder [OF assms(1) up, of d] b t
  show ?thesis
    by (auto simp: credentialConfigs_def targetConfig_def simp del: get_prop.simps)
qed

lemma example_bucket: "OPENAPI_SPECS_BUCKET example_environment = ''specs''"
  by (simp add: OPENAPI_SPECS_BUCKET_def or_default_def example_environment_def)

lemma example_upload:
  "uploadOpenApiSpec example_service example_environment spec tool gid (Some ''specs'')
     = (Inr (''s3://specs/'' @ objectKey example_environment gid tool),
        [HeadBucketCommand ''specs'', CreateBucketCommand ''specs'' None,
         PutObjectCommand ''specs'' (objectKey example_environment gid tool) spec
           ''application/json''])"
  by (simp add: uploadOpenApiSpec_def ensureS3Bucket_def bucketNameOrDefault_def
        headOrCreateBucket_def bind_io_def send_def example_service_def
        example_createBucketParams)

lemma example_provider:
  "example_service (CreateApiKeyCredentialProviderCommand n k)
     = Inr [(''credentialProviderArn'', JStr ''arn:provider/new'')]"
  by (simp add: example_service_def)

lemma example_download:
  "example_service (AxiosGet u) = Inr [(''data'', minimal_spec)]"
  by (simp add: example_service_def minimal_spec_def)

lemma minimal_spec_valid: "validateOpenApiSpec minimal_spec = Inr ()"
  by (simp add: validateOpenApiSpec_def minimal_spec_def)

lemma example_generated:
  "\<exists>generated. generateOpenApiSpec example_environment tool
                  (get_prop todos_api_info ''method'') (get_prop todos_api_info ''url'')
                  (get_prop todos_api_info ''query_params'')
                  (get_prop todos_api_info ''headers'')
                  (get_prop todos_api_info ''body_schema'')
                  (get_prop todos_api_info ''description'') = Inr generated"
  by (simp add: generateOpenApiSpec_def todos_api_info_def Let_def)

text \<open>
  On the gateway of the example the three endpoints create the placeholder provider of
  the tool \<^verbatim>\<open>tool2\<close> and attach it to the target they create.
\<close>

theorem placeholder_credential_is_attached_witness:
  "(\<exists>sent p. snd (createToolFromSpec example_service example_environment
                    \<lparr> gateway_id = ''gw'', tool_name = ''tool2'', auth = None,
                      openapi_spec = minimal_spec \<rparr>)
        = sent @ [CreateApiKeyCredentialProviderCommand (Some ''tool2-placeholder-apikey'')
                    (Some ''placeholder-not-used''),
                  CreateGatewayTargetCommand p]
      \<and> name p = ''tool2''
      \<and> credentialProviderConfigurations p
          = JArr [JObj [(''credentialProviderType'', JStr ''API_KEY''),
                        (''credentialProvider'',
                         JObj [(''apiKeyCredentialProvider'',
                                JObj [(''credentialParameterName'', JStr ''X-Placeholder-Auth''),
                                      (''providerArn'', JStr ''arn:provider/new''),
                                      (''credentialLocation'', JStr ''HEADER'')])])]])
   \<and> (\<exists>sent p. snd (createToolFromUrl example_service example_environment
                    \<lparr> gateway_id = ''gw'', tool_name = ''tool2'',
                      auth = Some \<lparr> type = ''oauth'', provider_name = None, config = None \<rparr>,
                      openapi_spec_url = ''https://example.com/openapi.json'' \<rparr>)
        = sent @ [CreateApiKeyCredentialProviderCommand (Some ''tool2-placeholder-apikey'')
                    (Some ''placeholder-not-used''),
                  CreateGatewayTargetCommand p]
      \<and> name p = ''tool2''
      \<and> credentialProviderConfigurations p
          = JArr [JObj [(''credentialProviderType'', JStr ''API_KEY''),
                        (''credentialProvider'',
                         JObj [(''apiKeyCredentialProvider'',
                                JObj [(''credentialParameterName'', JStr ''X-Placeholder-Auth''),
                                      (''providerArn'', JStr ''arn:provider/new''),
                                      (''credentialLocation'', JStr ''HEADER'')])])]])
   \<and> (\<exists>sent p. snd (createToolFromApiInfo example_service example_environment
                    \<lparr> gateway_id = ''gw'', tool_name = ''tool2'', auth = None,
                      api_info = todos_api_info \<rparr>)
        = sent @ [CreateApiKeyCredentialProviderCommand (Some ''tool2-placeholder-apikey'')
                    (Some ''placeholder-not-used''),
                  CreateGatewayTargetCommand p]
      \<and> name p = ''tool2''
      \<and> credentialProviderConfigurations p
          = JArr [JObj [(''credentialProviderType'', JStr ''API_KEY''),
                        (''credentialProvider'',
                         JObj [(''apiKeyCredentialProvider'',
                                JObj [(''credentialParameterName'', JStr ''X-Placeholder-Auth''),
                                      (''providerArn'', JStr ''arn:provider/new''),
                                      (''credentialLocation'', JStr ''HEADER'')])])]])"
proof -
  let ?spec = "\<lparr> gateway_id = ''gw'', tool_name = ''tool2'', auth = None,
                  openapi_spec = minimal_spec \<rparr>"
  let ?oauth = "Some \<lparr> type = ''oauth'', provider_name = None, config = None \<rparr>"
  let ?url = "\<lparr> gateway_id = ''gw'', tool_name = ''tool2'', auth = ?oauth,
                 openapi_spec_url = ''https://example.com/openapi.json'' \<rparr>"
  let ?info = "\<lparr> gateway_id = ''gw'', tool_name = ''tool2'', auth = None,
                  api_info = todos_api_info \<rparr>"
  let ?uri = "''s3://specs/'' @ objectKey example_environment ''gw'' ''tool2''"
  let ?sent = "\<lambda>spec. [HeadBucketCommand ''specs'', CreateBucketCommand ''specs'' None,
                 PutObjectCommand ''specs'' (objectKey example_environment ''gw'' ''tool2'') spec
                   ''application/json'']"
  let ?provider = "CreateApiKeyCredentialProviderCommand (Some (''tool2'' @ ''-placeholder-apikey''))
                     (Some ''placeholder-not-used'')"
  let ?attached = "\<lambda>rest. \<forall>response. example_service ?provider = Inr response \<longrightarrow>
                 (\<exists>p. rest = [CreateGatewayTargetCommand p]
                    \<and> name p = ''tool2'' \<and> gatewayIdentifier p = ''gw''
                    \<and> targetConfiguration p
                        = JObj [(''mcp'',
                                 JObj [(''openApiSchema'',
                                        JObj [(''s3'', JObj [(''uri'', JStr ?uri)])])])]
                    \<and> credentialProviderConfigurations p
                        = JArr [JObj [(''credentialProviderType'', JStr ''API_KEY''),
                                      (''credentialProvider'',
                                       JObj [(''apiKeyCredentialProvider'',
                                              JObj [(''credentialParameterName'',
                                                     JStr ''X-Placeholder-Auth''),
                                                    (''providerArn'',
                                                     if truthy (get_prop (JObj response)
                                                                  ''credentialProviderArn'')
                                                     then get_prop (JObj response)
                                                            ''credentialProviderArn''
                                                     else JStr []),
                                                    (''credentialLocation'',
                                                     JStr ''HEADER'')])])]])"
  obtain generated where gen:
    "generateOpenApiSpec example_environment ''tool2''
       (get_prop todos_api_info ''method'') (get_prop todos_api_info ''url'')
       (get_prop todos_api_info ''query_params'') (get_prop todos_api_info ''headers'')
       (get_prop todos_api_info ''body_schema'') (get_prop todos_api_info ''description'')
     = Inr generated"
    using example_generated by blast
  have n: "todos_api_info \<noteq> JUndefined" "todos_api_info \<noteq> JNull"
    by (simp_all add: todos_api_info_def)
  have ph: "(None :: AuthDto option) = None
             \<or> (\<exists>a. (None :: AuthDto option) = Some a \<and> type a \<noteq> ''api_key'')"
    by simp
  have ph': "?oauth = None \<or> (\<exists>a. ?oauth = Some a \<and> type a \<noteq> ''api_key'')"
    by simp
  have h1: "auth ?spec = None
          \<and> validateOpenApiSpec (openapi_spec ?spec) = Inr ()
          \<and> uploadOpenApiSpec example_service example_environment (openapi_spec ?spec)
               (tool_name ?spec) (gateway_id ?spec)
               (Some (OPENAPI_SPECS_BUCKET example_environment))
             = (Inr ?uri, ?sent minimal_spec)
          \<and> ''tool2'' = tool_name ?spec \<and> ''gw'' = gateway_id ?spec
          \<and> snd (createToolFromSpec example_service example_environment ?spec)
              = snd (createToolFromSpec example_service example_environment ?spec)
          \<and> ?sent minimal_spec = ?sent minimal_spec"
    by (simp add: minimal_spec_valid example_bucket example_upload)
  have h2: "auth ?url = ?oauth
          \<and> example_service (AxiosGet (openapi_spec_url ?url)) = Inr [(''data'', minimal_spec)]
          \<and> validateOpenApiSpec (get_prop (JObj [(''data'', minimal_spec)]) ''data'') = Inr ()
          \<and> uploadOpenApiSpec example_service example_environment
               (get_prop (JObj [(''data'', minimal_spec)]) ''data'') (tool_name ?url)
               (gateway_id ?url) (Some (OPENAPI_SPECS_BUCKET example_environment))
             = (Inr ?uri, ?sent minimal_spec)
          \<and> ''tool2'' = tool_name ?url \<and> ''gw'' = gateway_id ?url
          \<and> snd (createToolFromUrl example_service example_environment ?url)
              = snd (createToolFromUrl example_service example_environment ?url)
          \<and> AxiosGet ''https://example.com/openapi.json'' # ?sent minimal_spec
              = AxiosGet (openapi_spec_url ?url) # ?sent minimal_spec"
    by (simp add: minimal_spec_valid example_bucket example_upload example_download)
  have h3: "auth ?info = None
          \<and> api_info ?info \<noteq> JUndefined \<and> api_info ?info \<noteq> JNull
          \<and> generateOpenApiSpec example_environment (tool_name ?info)
               (get_prop (api_info ?info) ''method'')
               (get_prop (api_info ?info) ''url'')
               (get_prop (api_info ?info) ''query_params'')
               (get_prop (api_info ?info) ''headers'')
               (get_prop (api_info ?info) ''body_schema'')
               (get_prop (api_info ?info) ''description'') = Inr generated
          \<and> uploadOpenApiSpec example_service example_environment generated (tool_name ?info)
               (gateway_id ?info) (Some (OPENAPI_SPECS_BUCKET example_environment))
             = (Inr ?uri, ?sent generated)
          \<and> ''tool2'' = tool_name ?info \<and> ''gw'' = gateway_id ?info
          \<and> snd (createToolFromApiInfo example_service example_environment ?info)
              = snd (createToolFromApiInfo example_service example_environment ?info)
          \<and> ?sent generated = ?sent generated"
    using n gen by (simp add: example_bucket example_upload del: get_prop.simps)
  have 1: "\<exists>rest. snd (createToolFromSpec example_service example_environment ?spec)
                   = ?sent minimal_spec @ ?provider # rest \<and> ?attached rest"
    by (rule placeholder_credential_is_attached [where c = example_service
             and env = example_environment, OF ph disjI1 [OF h1]])
  have 2: "\<exists>rest. snd (createToolFromUrl example_service example_environment ?url)
                   = (AxiosGet ''https://example.com/openapi.json'' # ?sent minimal_spec)
                     @ ?provider # rest \<and> ?attached rest"
    by (rule placeholder_credential_is_attached [where c = example_service
             and env = example_environment, OF ph' disjI2 [OF disjI1 [OF h2]]])
  have 3: "\<exists>rest. snd (createToolFromApiInfo example_service example_environment ?info)
                   = ?sent generated @ ?provider # rest \<and> ?attached rest"
    by (rule placeholder_credential_is_attached [where c = example_service
             and env = example_environment, OF ph disjI2 [OF disjI2 [OF h3]]])
  have pr: "example_service ?provider = Inr [(''credentialProviderArn'', JStr ''arn:provider/new'')]"
    by (rule example_provider)
  have a: "\<exists>p. rest = [CreateGatewayTargetCommand p] \<and> name p = ''tool2''
              \<and> credentialProviderConfigurations p
                  = JArr [JObj [(''credentialProviderType'', JStr ''API_KEY''),
                        (''credentialProvider'',
                         JObj [(''apiKeyCredentialProvider'',
                                JObj [(''credentialParameterName'', JStr ''X-Placeholder-Auth''),
                                      (''providerArn'', JStr ''arn:provider/new''),
                                      (''credentialLocation'', JStr ''HEADER'')])])]]"
    if "?attached rest" for rest
  proof -
    from that [rule_format, OF pr] obtain p where
      "rest = [CreateGatewayTargetCommand p]" "name p = ''tool2''"
      "credentialProviderConfigurations p
         = JArr [JObj [(''credentialProviderType'', JStr ''API_KEY''),
                       (''credentialProvider'',
                        JObj [(''apiKeyCredentialProvider'',
                               JObj [(''credentialParameterName'', JStr ''X-Placeholder-Auth''),
                                     (''providerArn'',
                                      if truthy (get_prop
                                                   (JObj [(''credentialProviderArn'',
                                                           JStr ''arn:provider/new'')])
                                                   ''credentialProviderArn'')
                                      then get_prop
                                             (JObj [(''credentialProviderArn'',
                                                     JStr ''arn:provider/new'')])
                                             ''credentialProviderArn''
                                      else JStr []),
                                     (''credentialLocation'', JStr ''HEADER'')])])]]"
      by (elim exE conjE)
    then show ?thesis by simp
  qed
  have f: "\<exists>sent p. trace = sent @ [?provider, CreateGatewayTargetCommand p]
              \<and> name p = ''tool2''
              \<and> credentialProviderConfigurations p
                  = JArr [JObj [(''credentialProviderType'', JStr ''API_KEY''),
                        (''credentialProvider'',
                         JObj [(''apiKeyCredentialProvider'',
                                JObj [(''credentialParameterName'', JStr ''X-Placeholder-Auth''),
                                      (''providerArn'', JStr ''arn:provider/new''),
                                      (''credentialLocation'', JStr ''HEADER'')])])]]"
    if "\<exists>rest. trace = before @ ?provider # rest \<and> ?attached rest" for trace before
  proof -
    from that obtain rest where t: "trace = before @ ?provider # rest" and "?attached rest"
      by (elim exE conjE)
    from a [OF this(2)] obtain p where "rest = [CreateGatewayTargetCommand p]"
      "name p = ''tool2''"
      "credentialProviderConfigurations p
                  = JArr [JObj [(''credentialProviderType'', JStr ''API_KEY''),
                        (''credentialProvider'',
                         JObj [(''apiKeyCredentialProvider'',
                                JObj [(''credentialParameterName'', JStr ''X-Placeholder-Auth''),
                                      (''providerArn'', JStr ''arn:provider/new''),
                                      (''credentialLocation'', JStr ''HEADER'')])])]]"
      by (elim exE conjE)
    with t show ?thesis by (intro exI [of _ before] exI [of _ p]) simp
  qed
  have p: "?provider = CreateApiKeyCredentialProviderCommand (Some ''tool2-placeholder-apikey'')
                         (Some ''placeholder-not-used'')"
    by simp
  show ?thesis
    using f [OF 1] f [OF 2] f [OF 3] unfolding p by (intro conjI)
qed

text \<open>
  C9 as stated fails: for a request to \<^verbatim>\<open>POST /tools/from-spec\<close> without \<^verbatim>\<open>auth\<close>
  whose specification the store refuses, the handler answers 500 and no credential
  provider is created.
\<close>

theorem placeholder_not_created_when_store_refuses:
  "createToolFromSpec example_service_refusing_store example_environment
       \<lparr> gateway_id = ''gw'', tool_name = ''tool2'', auth = None,
         openapi_spec = minimal_spec \<rparr>
     = (Inl (HttpException
               (JObj [(''status'', JNum (Fin 500)), (''error'', JStr ''Access Denied'')]) 500),
        [HeadBucketCommand ''specs'', CreateBucketCommand ''specs'' None,
         PutObjectCommand ''specs'' ''gateways/gw/tools/tool2/1700000000-001fa0ff10029c7e.json''
           minimal_spec ''application/json''])"
  by (simp add: createToolFromSpec_def validateAuth_def minimal_spec_valid
        createToolWithSpec_def uploadOpenApiSpec_def ensureS3Bucket_def
        bucketNameOrDefault_def headOrCreateBucket_def bind_io_def send_def
        example_service_refusing_store_def example_service_def example_bucket
        example_createBucketParams example_objectKey internal_error_def
        INTERNAL_SERVER_ERROR_def access_denied_def)

section \<open>Failures of tool creation\<close>

text \<open>Neither the upload nor the creation of the credential provider creates a target.\<close>

lemma ensureS3Bucket_sends:
  "x \<in> set (snd (ensureS3Bucket c env bucketName)) \<Longrightarrow>
     x = GetCallerIdentityCommand \<or> (\<exists>b. x = HeadBucketCommand b)
       \<or> (\<exists>b l. x = CreateBucketCommand b l)"
  by (auto simp: ensureS3Bucket_def bucketNameOrDefault_def headOrCreateBucket_def send_def
                 createBucketParams_def
           dest!: in_bind_io split: option.splits sum.splits if_splits)

lemma uploadOpenApiSpec_sends_no_create:
  "CreateGatewayTargetCommand p \<notin> set (snd (uploadOpenApiSpec c env spec tool gid bucketName))"
proof
  assume "CreateGatewayTargetCommand p
            \<in> set (snd (uploadOpenApiSpec c env spec tool gid bucketName))"
  then show False
    unfolding uploadOpenApiSpec_def
    by (auto simp: send_def dest!: in_bind_io ensureS3Bucket_sends split: sum.splits)
qed

lemma createOrGetApiKeyCredentialProvider_sends_no_create:
  "CreateGatewayTargetCommand p
     \<notin> set (snd (createOrGetApiKeyCredentialProvider c providerName apiKey))"
  by (auto simp: createOrGetApiKeyCredentialProvider_def Let_def split: sum.splits)

text \<open>A rejected creation of the target is what the creation fails with.\<close>

lemma createGatewayTarget_rejected:
  assumes "CreateGatewayTargetCommand p
             \<in> set (snd (createGatewayTarget c gid nm uri arn pn loc d))"
    and "c (CreateGatewayTargetCommand p) = Inl e"
  shows "fst (createGatewayTarget c gid nm uri arn pn loc d)
           = Inl (if err_Code e = Some ''ConflictException''
                  then Error (already_exists_message nm gid) else Rejected e)"
  using assms by (auto simp: createGatewayTarget_def Let_def split: sum.splits)

lemma registerToolWithGateway_rejected:
  assumes "CreateGatewayTargetCommand p
             \<in> set (snd (registerToolWithGateway c gid nm uri auth' d))"
    and "c (CreateGatewayTargetCommand p) = Inl e"
  shows "fst (registerToolWithGateway c gid nm uri auth' d)
           = Inl (if err_Code e = Some ''ConflictException''
                  then Error (already_exists_message nm gid) else Rejected e)"
proof -
  obtain k n pn loc where
    reg: "registerToolWithGateway c gid nm uri auth' d
            = bind_io (createOrGetApiKeyCredentialProvider c n k)
                (\<lambda>arn. createGatewayTarget c gid nm uri arn (Some pn) (Some loc) d)"
    using assms(1)
    by (auto simp: registerToolWithGateway_def split: option.splits if_splits sum.splits)
  from assms(1) obtain arn where
    arn: "fst (createOrGetApiKeyCredentialProvider c n k) = Inr arn"
    and sent: "CreateGatewayTargetCommand p
                 \<in> set (snd (createGatewayTarget c gid nm uri arn (Some pn) (Some loc) d))"
    unfolding reg
    using createOrGetApiKeyCredentialProvider_sends_no_create
    by (blast dest: in_bind_io)
  show ?thesis
    unfolding reg fst_bind_io [OF arn]
    by (rule createGatewayTarget_rejected [OF sent assms(2)])
qed

lemma createToolWithSpec_rejected:
  assumes "CreateGatewayTargetCommand p
             \<in> set (snd (createToolWithSpec c env gid nm spec auth' d))"
    and "c (CreateGatewayTargetCommand p) = Inl e"
  shows "fst (createToolWithSpec c env gid nm spec auth' d)
           = Inl (if err_Code e = Some ''ConflictException''
                  then Error (already_exists_message nm gid) else Rejected e)"
proof -
  from assms(1) obtain s3Uri where
    up: "fst (uploadOpenApiSpec c env spec nm gid (Some (OPENAPI_SPECS_BUCKET env))) = Inr s3Uri"
    and "CreateGatewayTargetCommand p
           \<in> set (snd (bind_io (registerToolWithGateway c gid nm s3Uri auth' d)
                (\<lambda>result.
               (Inr (JObj [(''status'', JStr ''success''),
                           (''tool_name'', JStr nm),
                           (''gateway_id'', JStr gid),
                           (''openapi_spec_path'', JStr s3Uri),
                           (''message'', JStr (created_message nm gid)),
                           (''target_id'', get_prop result ''targetId''),
                           (''gateway_arn'', get_prop result ''gatewayArn''),
                           (''description'', get_prop result ''description''),
                           (''created_at'', get_prop result ''createdAt''),
                           (''updated_at'', get_prop result ''updatedAt''),
                           (''last_synchronized_at'', get_prop result ''lastSynchronizedAt''),
                           (''target_status'', get_prop result ''status''),
                           (''status_reasons'', get_prop result ''statusReasons''),
                           (''target_configuration'', get_prop result ''targetConfiguration''),
                           (''credential_provider_configurations'',
                            get_prop result ''credentialProviderConfigurations'')]),
                []))))"
    unfolding createToolWithSpec_def
    using uploadOpenApiSpec_sends_no_create by (blast dest: in_bind_io)
  then have sent: "CreateGatewayTargetCommand p
                     \<in> set (snd (registerToolWithGateway c gid nm s3Uri auth' d))"
    by (auto dest!: in_bind_io)
  have "fst (registerToolWithGateway c gid nm s3Uri auth' d)
           = Inl (if err_Code e = Some ''ConflictException''
                  then Error (already_exists_message nm gid) else Rejected e)"
    by (rule registerToolWithGateway_rejected [OF sent assms(2)])
  then show ?thesis
    unfolding createToolWithSpec_def fst_bind_io [OF up]
    by (rule fst_bind_io_Inl)
qed

text \<open>
  C6. When the creation of the target is rejected by the service, as it is for a name
  that is taken, \<^verbatim>\<open>POST /tools/from-spec\<close>, \<^verbatim>\<open>POST /tools/from-url\<close> and
  \<^verbatim>\<open>POST /tools/from-api-info\<close> answer with status 500 and a body of \<^verbatim>\<open>status\<close>
  and \<^verbatim>\<open>error\<close>.
\<close>

theorem conflict_surfaces_as_500:
  assumes "c (CreateGatewayTargetCommand p) = Inl e"
  shows "(CreateGatewayTargetCommand p \<in> set (snd (createToolFromSpec c env request)) \<longrightarrow>
            fst (createToolFromSpec c env request)
              = Inl (HttpException
                       (JObj [(''status'', JNum (Fin 500)),
                              (''error'',
                               JStr (if err_Code e = Some ''ConflictException''
                                     then already_exists_message (tool_name request)
                                            (gateway_id request)
                                     else err_message e))])
                       500))
       \<and> (CreateGatewayTargetCommand p \<in> set (snd (createToolFromUrl c env request')) \<longrightarrow>
            fst (createToolFromUrl c env request')
              = Inl (HttpException
                       (JObj [(''status'', JNum (Fin 500)),
                              (''error'',
                               JStr (if err_Code e = Some ''ConflictException''
                                     then already_exists_message (tool_name request')
                                            (gateway_id request')
                                     else err_message e))])
                       500))
       \<and> (CreateGatewayTargetCommand p
            \<in> set (snd (createToolFromApiInfo c env request'')) \<longrightarrow>
            fst (createToolFromApiInfo c env request'')
              = Inl (HttpException
                       (JObj [(''status'', JNum (Fin 500)),
                              (''error'',
                               JStr (if err_Code e = Some ''ConflictException''
                                     then already_exists_message (tool_name request'')
                                            (gateway_id request'')
                                     else err_message e))])
                       500))"
proof (intro conjI impI)
  assume sent: "CreateGatewayTargetCommand p \<in> set (snd (createToolFromSpec c env request))"
  then have "CreateGatewayTargetCommand p
               \<in> set (snd (createToolWithSpec c env (gateway_id request) (tool_name request)
                              (openapi_spec request) (auth request) JUndefined))"
    by (auto simp: createToolFromSpec_def split: sum.splits prod.splits exn.splits)
  from createToolWithSpec_rejected [OF this assms] sent
  show "fst (createToolFromSpec c env request)
              = Inl (HttpException
                       (JObj [(''status'', JNum (Fin 500)),
                              (''error'',
                               JStr (if err_Code e = Some ''ConflictException''
                                     then already_exists_message (tool_name request)
                                            (gateway_id request)
                                     else err_message e))])
                       500)"
    by (auto simp: createToolFromSpec_def internal_error_def INTERNAL_SERVER_ERROR_def
             split: sum.splits prod.splits exn.splits if_splits)
next
  assume sent: "CreateGatewayTargetCommand p \<in> set (snd (createToolFromUrl c env request'))"
  then have "CreateGatewayTargetCommand p
               \<in> set (snd (downloadAndCreateTool c env (gateway_id request') (tool_name request')
                              (openapi_spec_url request') (auth request')))"
    by (auto simp: createToolFromUrl_def split: sum.splits prod.splits)
  then obtain spec where
    dl: "fst (send c (AxiosGet (openapi_spec_url request'))) = Inr spec"
    and v: "validateOpenApiSpec (get_prop spec ''data'') = Inr ()"
    and "CreateGatewayTargetCommand p
               \<in> set (snd (createToolWithSpec c env (gateway_id request') (tool_name request')
                              (get_prop spec ''data'') (auth request') JUndefined))"
    unfolding downloadAndCreateTool_def
    by (auto simp: send_def Let_def dest!: in_bind_io split: sum.splits)
  from createToolWithSpec_rejected [OF this(3) assms]
  have "fst (downloadAndCreateTool c env (gateway_id request') (tool_name request')
               (openapi_spec_url request') (auth request'))
          = Inl (if err_Code e = Some ''ConflictException''
                 then Error (already_exists_message (tool_name request') (gateway_id request'))
                 else Rejected e)"
    unfolding downloadAndCreateTool_def fst_bind_io [OF dl] using v by (simp add: Let_def)
  with sent
  show "fst (createToolFromUrl c env request')
              = Inl (HttpException
                       (JObj [(''status'', JNum (Fin 500)),
                              (''error'',
                               JStr (if err_Code e = Some ''ConflictException''
                                     then already_exists_message (tool_name request')
                                            (gateway_id request')
                                     else err_message e))])
                       500)"
    by (auto simp: createToolFromUrl_def internal_error_def INTERNAL_SERVER_ERROR_def
             split: sum.splits prod.splits if_splits)
next
  assume sent: "CreateGatewayTargetCommand p
                  \<in> set (snd (createToolFromApiInfo c env request''))"
  then obtain spec where
    "generateOpenApiSpec env (tool_name request'')
       (get_prop (api_info request'') ''method'') (get_prop (api_info request'') ''url'')
       (get_prop (api_info request'') ''query_params'')
       (get_prop (api_info request'') ''headers'')
       (get_prop (api_info request'') ''body_schema'')
       (get_prop (api_info request'') ''description'') = Inr spec"
    and "CreateGatewayTargetCommand p
               \<in> set (snd (createToolWithSpec c env (gateway_id request'') (tool_name request'')
                              spec (auth request'')
                              (get_prop (api_info request'') ''description'')))"
    by (auto simp: createToolFromApiInfo_def simp del: get_prop.simps
             split: sum.splits prod.splits if_splits)
  from createToolWithSpec_rejected [OF this(2) assms] sent this(1)
  show "fst (createToolFromApiInfo c env request'')
              = Inl (HttpException
                       (JObj [(''status'', JNum (Fin 500)),
                              (''error'',
                               JStr (if err_Code e = Some ''ConflictException''
                                     then already_exists_message (tool_name request'')
                                            (gateway_id request'')
                                     else err_message e))])
                       500)"
    by (auto simp: createToolFromApiInfo_def internal_error_def INTERNAL_SERVER_ERROR_def
             simp del: get_prop.simps split: sum.splits prod.splits if_splits)
qed

lemma example_register:
  "snd (registerToolWithGateway example_service gid ''tool'' uri None JUndefined)
     = [CreateApiKeyCredentialProviderCommand (Some ''tool-placeholder-apikey'')
          (Some ''placeholder-not-used''),
        CreateGatewayTargetCommand
          (createTargetInput gid ''tool'' uri (JStr ''arn:provider/new'')
             (Some ''X-Placeholder-Auth'') (Some ''HEADER'') JUndefined)]"
  by (simp add: registerToolWithGateway_def createOrGetApiKeyCredentialProvider_def
        createGatewayTarget_def bind_io_def example_service_def createTargetInput_def Let_def
        truthy_or_def)

lemma example_creation_sent:
  "CreateGatewayTargetCommand
     (createTargetInput ''gw'' ''tool''
        (''s3://specs/'' @ objectKey example_environment ''gw'' ''tool'')
        (JStr ''arn:provider/new'') (Some ''X-Placeholder-Auth'') (Some ''HEADER'') JUndefined)
     \<in> set (snd (createToolWithSpec example_service example_environment ''gw'' ''tool''
                    spec None JUndefined))"
proof -
  have "snd (createToolWithSpec example_service example_environment ''gw'' ''tool''
               spec None JUndefined)
          = [HeadBucketCommand ''specs'', CreateBucketCommand ''specs'' None,
             PutObjectCommand ''specs'' (objectKey example_environment ''gw'' ''tool'')
               spec ''application/json'']
            @ snd (registerToolWithGateway example_service ''gw'' ''tool''
                     (''s3://specs/'' @ objectKey example_environment ''gw'' ''tool'') None
                     JUndefined)"
    unfolding createToolWithSpec_def example_bucket example_upload
    by (simp add: bind_io_def split: prod.splits sum.splits)
  then show ?thesis
    unfolding example_register by simp
qed

text \<open>
  The name \<^verbatim>\<open>tool\<close> is taken on the gateway of the example: the three endpoints
  answer 500 with the message of the conflict.
\<close>

theorem conflict_surfaces_as_500_witness:
  "example_service
     (CreateGatewayTargetCommand
        (createTargetInput ''gw'' ''tool''
           (''s3://specs/'' @ objectKey example_environment ''gw'' ''tool'')
           (JStr ''arn:provider/new'') (Some ''X-Placeholder-Auth'') (Some ''HEADER'') JUndefined))
     = Inl conflict
   \<and> fst (createToolFromSpec example_service example_environment
            \<lparr> gateway_id = ''gw'', tool_name = ''tool'', auth = None,
              openapi_spec = minimal_spec \<rparr>)
       = Inl (HttpException
                (JObj [(''status'', JNum (Fin 500)),
                       (''error'', JStr (already_exists_message ''tool'' ''gw''))])
                500)
   \<and> fst (createToolFromUrl example_service example_environment
            \<lparr> gateway_id = ''gw'', tool_name = ''tool'', auth = None,
              openapi_spec_url = ''https://example.com/openapi.json'' \<rparr>)
       = Inl (HttpException
                (JObj [(''status'', JNum (Fin 500)),
                       (''error'', JStr (already_exists_message ''tool'' ''gw''))])
                500)
   \<and> fst (createToolFromApiInfo example_service example_environment
            \<lparr> gateway_id = ''gw'', tool_name = ''tool'', auth = None,
              api_info = todos_api_info \<rparr>)
       = Inl (HttpException
                (JObj [(''status'', JNum (Fin 500)),
                       (''error'', JStr (already_exists_message ''tool'' ''gw''))])
                500)"
proof -
  let ?p = "createTargetInput ''gw'' ''tool''
              (''s3://specs/'' @ objectKey example_environment ''gw'' ''tool'')
              (JStr ''arn:provider/new'') (Some ''X-Placeholder-Auth'') (Some ''HEADER'') JUndefined"
  let ?spec = "\<lparr> gateway_id = ''gw'', tool_name = ''tool'', auth = None,
                  openapi_spec = minimal_spec \<rparr>"
  let ?url = "\<lparr> gateway_id = ''gw'', tool_name = ''tool'', auth = None,
                 openapi_spec_url = ''https://example.com/openapi.json'' \<rparr>"
  let ?info = "\<lparr> gateway_id = ''gw'', tool_name = ''tool'', auth = None,
                  api_info = todos_api_info \<rparr>"
  have r: "example_service (CreateGatewayTargetCommand ?p) = Inl conflict"
    by (simp add: example_service_def createTargetInput_def)
  have k: "err_Code conflict = Some ''ConflictException''"
    by (simp add: conflict_def)
  have 1: "CreateGatewayTargetCommand ?p
             \<in> set (snd (createToolFromSpec example_service example_environment ?spec))"
    using example_creation_sent
    by (simp add: snd_createToolFromSpec validateAuth_def validateOpenApiSpec_def
          minimal_spec_def)
  have g: "example_service (AxiosGet ''https://example.com/openapi.json'')
             = Inr [(''data'', minimal_spec)]"
    by (simp add: example_service_def minimal_spec_def)
  have "snd (createToolFromUrl example_service example_environment ?url)
          = AxiosGet ''https://example.com/openapi.json''
            # snd (createToolWithSpec example_service example_environment ''gw'' ''tool''
                     minimal_spec None JUndefined)"
    using snd_createToolFromUrl [where c = example_service and request = ?url
            and response = "[(''data'', minimal_spec)]" and env = example_environment] g
    by (simp add: validateAuth_def validateOpenApiSpec_def minimal_spec_def)
  then have 2: "CreateGatewayTargetCommand ?p
             \<in> set (snd (createToolFromUrl example_service example_environment ?url))"
    using example_creation_sent by simp
  obtain generated where gen:
    "generateOpenApiSpec example_environment ''tool''
       (get_prop todos_api_info ''method'') (get_prop todos_api_info ''url'')
       (get_prop todos_api_info ''query_params'') (get_prop todos_api_info ''headers'')
       (get_prop todos_api_info ''body_schema'') (get_prop todos_api_info ''description'')
     = Inr generated"
    using example_generated by blast
  have n: "todos_api_info \<noteq> JUndefined" "todos_api_info \<noteq> JNull"
    by (simp_all add: todos_api_info_def)
  have d: "get_prop todos_api_info ''description'' = JUndefined"
    by (simp add: todos_api_info_def)
  have "snd (createToolFromApiInfo example_service example_environment ?info)
          = snd (createToolWithSpec example_service example_environment ''gw'' ''tool''
                   generated None (get_prop todos_api_info ''description''))"
    using snd_createToolFromApiInfo [where c = example_service and request = ?info
            and env = example_environment and spec = generated] gen n
    by (simp add: validateAuth_def del: get_prop.simps)
  then have 3: "CreateGatewayTargetCommand ?p
             \<in> set (snd (createToolFromApiInfo example_service example_environment ?info))"
    unfolding d using example_creation_sent by simp
  from conflict_surfaces_as_500 [where c = example_service and p = ?p and e = conflict
         and env = example_environment and request = ?spec and request' = ?url
         and request'' = ?info, OF r]
       1 2 3 k r
  show ?thesis by simp
qed

section \<open>Validation of the credentials of a request\<close>

lemma validateAuth_missing_field:
  assumes "type a = ''api_key''"
    and "config a = None \<or> (\<exists>cfg. config a = Some cfg \<and> falsy (api_key cfg))
           \<or> falsy (provider_name a)"
  shows "\<exists>m. validateAuth (Some a) = Inl (BadRequestException m)"
  using assms by (auto simp: validateAuth_def split: option.splits)

text \<open>What each endpoint makes of a request that the validation rejects.\<close>

lemma createToolFromSpec_rejected_auth:
  assumes "validateAuth (auth request) = Inl (BadRequestException m)"
  shows "createToolFromSpec c env request = (Inl (Rethrown (BadRequestException m)), [])"
    and "getStatus (Rethrown (BadRequestException m)) = 400"
  using assms by (simp_all add: createToolFromSpec_def)

lemma createToolFromApiInfo_rejected_auth:
  assumes "validateAuth (auth request) = Inl (BadRequestException m)"
  shows "createToolFromApiInfo c env request
           = (Inl (HttpException (JObj [(''status'', JNum (Fin 500)), (''error'', JStr m)]) 500),
              [])"
  using assms
  by (simp add: createToolFromApiInfo_def internal_error_def INTERNAL_SERVER_ERROR_def)

lemma createToolFromUrl_rejected_auth:
  assumes "validateAuth (auth request) = Inl (BadRequestException m)"
  shows "createToolFromUrl c env request
           = (Inl (HttpException (JObj [(''status'', JNum (Fin 500)), (''error'', JStr m)]) 500),
              [])"
  using assms
  by (simp add: createToolFromUrl_def internal_error_def INTERNAL_SERVER_ERROR_def)

text \<open>
  C7 does not hold of the code. A request to \<^verbatim>\<open>POST /tools/from-url\<close> or to
  \<^verbatim>\<open>POST /tools/from-api-info\<close> with an \<^verbatim>\<open>auth\<close> of type \<^verbatim>\<open>api_key\<close> and no key
  is answered with status 500, whatever the services would answer, where
  \<^verbatim>\<open>POST /tools/from-spec\<close> answers 400.
\<close>

theorem from_url_missing_api_key_answers_500:
  "validateAuth (Some no_api_key) = Inl (BadRequestException api_key_required)
   \<and> createToolFromUrl c env
        \<lparr> gateway_id = ''gw'', tool_name = ''tool'', auth = Some no_api_key,
          openapi_spec_url = ''https://example.com/openapi.json'' \<rparr>
       = (Inl (HttpException
                 (JObj [(''status'', JNum (Fin 500)), (''error'', JStr api_key_required)])
                 500),
          [])
   \<and> getStatus (HttpException
                  (JObj [(''status'', JNum (Fin 500)), (''error'', JStr api_key_required)])
                  500) = 500
   \<and> createToolFromApiInfo c env
        \<lparr> gateway_id = ''gw'', tool_name = ''tool'', auth = Some no_api_key,
          api_info = JObj [(''method'', JStr ''GET''),
                           (''url'', JStr ''https://api.example.com/todos'')] \<rparr>
       = (Inl (HttpException
                 (JObj [(''status'', JNum (Fin 500)), (''error'', JStr api_key_required)])
                 500),
          [])
   \<and> createToolFromSpec c env
        \<lparr> gateway_id = ''gw'', tool_name = ''tool'', auth = Some no_api_key,
          openapi_spec = minimal_spec \<rparr>
       = (Inl (Rethrown (BadRequestException api_key_required)), [])
   \<and> getStatus (Rethrown (BadRequestException api_key_required)) = 400"
proof -
  have v: "validateAuth (Some no_api_key) = Inl (BadRequestException api_key_required)"
    by (simp add: validateAuth_def no_api_key_def falsy_def)
  show ?thesis
    using v
    by (simp add: createToolFromUrl_rejected_auth createToolFromSpec_rejected_auth
          createToolFromApiInfo_rejected_auth)
qed

end
